theory Spec2Isabelle
  imports Complex_Main
begin

section \<open>Map plotting of ObsPy (obspy/imaging/maps.py): the numeric decisions\<close>

text \<open>
  The module draws a scatter plot on a map with one of two libraries. Everything that is
  drawn is delegated; what the module computes itself is embedded here: the colour
  statements at the top of both renderers, the colorbar decision, the axes rectangle, the
  dispatch on the projection, the centre and footprint of the \<open>local\<close> projection, the
  aspect adjustment and the gridline heuristic \<open>linspace2\<close>.

  Python floats and numpy floats are modelled by \<^typ>\<open>real\<close>: sums, products and quotients
  are exact here and rounded there. Where the float computation would leave the real
  numbers (a division by zero, a logarithm of a non-positive number) the model returns
  an error instead of HOL's default value. Two statements depend on the last bit, the
  ratio after the aspect adjustment and the order of converted timestamps: for them the
  computation is repeated in double precision (\<open>fl\<close> and the definitions ending in \<open>_fp\<close>).
\<close>

subsection \<open>Errors\<close>

text \<open>
  \<open>ValueError\<close> carries the message. \<open>ZeroDivisionError\<close> is the exception of a division
  of two Python floats; \<open>NotANumber\<close> stands for a numpy operation that yields \<open>inf\<close> or
  \<open>nan\<close> (numpy warns and goes on; the value has no counterpart in \<^typ>\<open>real\<close>, so the
  model stops there).
\<close>

datatype error =
    ValueError string
  | TypeError
  | IndexError
  | KeyError string
  | ZeroDivisionError
  | NotANumber

definition bind_err :: "error + 'a \<Rightarrow> ('a \<Rightarrow> error + 'b) \<Rightarrow> error + 'b" where
  "bind_err m f = (case m of Inl e \<Rightarrow> Inl e | Inr a \<Rightarrow> f a)"

subsection \<open>Builtins and numpy functions the module calls\<close>

text \<open>
  \<open>min(xs)\<close> and \<open>max(xs)\<close> of Python on a sequence of numbers: the empty sequence raises
  ValueError, otherwise the sequence is scanned from its first element.
\<close>

fun py_min :: "real list \<Rightarrow> error + real" where
  "py_min [] = Inl (ValueError ''min() arg is an empty sequence'')"
| "py_min (x # xs) = Inr (fold min xs x)"

fun py_max :: "real list \<Rightarrow> error + real" where
  "py_max [] = Inl (ValueError ''max() arg is an empty sequence'')"
| "py_max (x # xs) = Inr (fold max xs x)"

text \<open>\<open>x % m\<close> on floats (Python and numpy agree): the result has the sign of \<open>m\<close>.\<close>

definition py_mod :: "real \<Rightarrow> real \<Rightarrow> real" where
  "py_mod x m = x - of_int \<lfloor>x / m\<rfloor> * m"

text \<open>
  \<open>round\<close> is the one of \<open>future.builtins\<close> (line 13 imports it over the builtin, and the
  comment on line 240 says so): Python 3's rounding, half to even. With one argument it
  returns an integer, with \<open>ndigits \<ge> 0\<close> a float.
\<close>

definition py_round :: "real \<Rightarrow> int" where
  "py_round x =
     (let f = \<lfloor>x\<rfloor>; d = x - of_int f
      in if d < 1 / 2 then f
         else if 1 / 2 < d then f + 1
         else if even f then f else f + 1)"

definition py_round_nd :: "real \<Rightarrow> nat \<Rightarrow> real" where
  "py_round_nd x n = of_int (py_round (x * 10 ^ n)) / 10 ^ n"

text \<open>\<open>np.log10\<close>: \<open>-inf\<close> at zero and \<open>nan\<close> below, which the following \<open>int(round(...))\<close> rejects.\<close>

definition np_log10 :: "real \<Rightarrow> error + real" where
  "np_log10 x = (if x \<le> 0 then Inl NotANumber else Inr (log 10 x))"

text \<open>\<open>np.mean\<close> of a sequence; of the empty one it is \<open>nan\<close>, here \<open>None\<close>.\<close>

definition np_mean :: "real list \<Rightarrow> real option" where
  "np_mean xs = (if xs = [] then None else Some (sum_list xs / of_nat (length xs)))"

text \<open>
  \<open>np.linspace(start, stop, num)\<close> with the end point included. \<open>num\<close> arrives as a float
  and is truncated by \<open>int\<close>; no sample for \<open>num \<le> 0\<close>, the start alone for \<open>num = 1\<close>.
\<close>

definition np_linspace :: "real \<Rightarrow> real \<Rightarrow> real \<Rightarrow> real list" where
  "np_linspace start stop num =
     (let n = nat \<lfloor>num\<rfloor>
      in if n = 0 then []
         else if n = 1 then [start]
         else map (\<lambda>i. start + of_nat i * ((stop - start) / of_nat (n - 1))) [0..<n])"

subsection \<open>Double precision\<close>


subsection \<open>The gridline heuristic \<open>linspace2\<close> (lines 234-249 and 537-552, the same text)\<close>

definition linspace2 :: "real \<Rightarrow> real \<Rightarrow> int \<Rightarrow> error + real list" where
  "linspace2 val1 val2 N =
     (let dval = val2 - val1
      in if N = 0 then Inl ZeroDivisionError
         else bind_err (np_log10 (1 * dval / of_int N)) (\<lambda>l.
           let round_pos = py_round (- l);
               delta = (if round_pos < 0
                        then let factor = (10::int) ^ nat \<bar>round_pos\<bar>
                             in of_int (py_round (2 * dval / of_int N / of_int factor) * factor) / 2
                        else py_round_nd (2 * dval / of_int N) (nat round_pos) / 2)
           in if delta = 0 then Inl ZeroDivisionError
              else let new_val1 = of_int \<lceil>val1 / delta\<rceil> * delta;
                       new_val2 = of_int \<lfloor>val2 / delta\<rfloor> * delta;
                       N' = (new_val2 - new_val1) / delta + 1
                   in Inr (np_linspace new_val1 new_val2 N')))"

subsection \<open>Colour values and the colour statements (lines 146-157 and 410-421)\<close>

text \<open>
  An element of \<open>color\<close> is a number or a timestamp (\<open>datetime.datetime\<close> or
  \<open>UTCDateTime\<close>; \<^typ>\<open>'t\<close> is the type of points in time, ordered chronologically). The
  argument itself is a sequence of such values, a string (whose elements are its
  characters) or a single value.
\<close>

datatype 't color_value = Num real | Time 't | Chr char

datatype 't color_arg =
    ColorSeq "'t color_value list"
  | ColorStr string
  | ColorScalar "'t color_value"

text \<open>Iterating over the argument, as \<open>min\<close>, \<open>max\<close> and the list comprehension do.\<close>

fun elements :: "'t color_arg \<Rightarrow> error + 't color_value list" where
  "elements (ColorSeq cs) = Inr cs"
| "elements (ColorStr s) = Inr (map Chr s)"
| "elements (ColorScalar c) = Inl TypeError"

text \<open>
  \<open>a < b\<close> on colour values: numbers with numbers, timestamps with timestamps, characters
  with characters; any other pair has no order (\<open>None\<close>, a TypeError).
\<close>

fun cv_less :: "('t::linorder) color_value \<Rightarrow> 't color_value \<Rightarrow> bool option" where
  "cv_less (Num a) (Num b) = Some (a < b)"
| "cv_less (Time a) (Time b) = Some (a < b)"
| "cv_less (Chr a) (Chr b) = Some ((of_char a :: nat) < of_char b)"
| "cv_less _ _ = None"

text \<open>
  \<open>min\<close> keeps the first of the smallest elements (it replaces its candidate when
  \<open>item < candidate\<close>), \<open>max\<close> the first of the largest (\<open>item > candidate\<close>).
\<close>

fun min_scan :: "('t::linorder) color_value \<Rightarrow> 't color_value list \<Rightarrow> error + 't color_value" where
  "min_scan best [] = Inr best"
| "min_scan best (c # cs) =
     (case cv_less c best of
        None \<Rightarrow> Inl TypeError
      | Some b \<Rightarrow> min_scan (if b then c else best) cs)"

fun max_scan :: "('t::linorder) color_value \<Rightarrow> 't color_value list \<Rightarrow> error + 't color_value" where
  "max_scan best [] = Inr best"
| "max_scan best (c # cs) =
     (case cv_less best c of
        None \<Rightarrow> Inl TypeError
      | Some b \<Rightarrow> max_scan (if b then c else best) cs)"

definition min_color_of :: "('t::linorder) color_arg \<Rightarrow> error + 't color_value" where
  "min_color_of color =
     bind_err (elements color) (\<lambda>cs.
       case cs of
         [] \<Rightarrow> Inl (ValueError ''min() arg is an empty sequence'')
       | c # cs' \<Rightarrow> min_scan c cs')"

definition max_color_of :: "('t::linorder) color_arg \<Rightarrow> error + 't color_value" where
  "max_color_of color =
     bind_err (elements color) (\<lambda>cs.
       case cs of
         [] \<Rightarrow> Inl (ValueError ''max() arg is an empty sequence'')
       | c # cs' \<Rightarrow> max_scan c cs')"

text \<open>\<open>color[0]\<close>.\<close>

fun first_color :: "'t color_arg \<Rightarrow> error + 't color_value" where
  "first_color (ColorSeq []) = Inl IndexError"
| "first_color (ColorSeq (c # cs)) = Inr c"
| "first_color (ColorStr []) = Inl IndexError"
| "first_color (ColorStr (c # cs)) = Inr (Chr c)"
| "first_color (ColorScalar c) = Inl TypeError"

text \<open>\<open>isinstance(c, (datetime.datetime, UTCDateTime))\<close>.\<close>

fun is_timestamp :: "'t color_value \<Rightarrow> bool" where
  "is_timestamp (Time t) = True"
| "is_timestamp _ = False"

text \<open>
  \<open>date2num\<close> belongs to matplotlib and is a parameter of the model: the function from a
  point in time to its number on the date axis. Applied to a value that is no timestamp it
  fails inside the library.
\<close>

fun date2num_of :: "('t \<Rightarrow> real) \<Rightarrow> 't color_value \<Rightarrow> error + 't color_value" where
  "date2num_of date2num (Time t) = Inr (Num (date2num t))"
| "date2num_of date2num _ = Inl TypeError"


text \<open>The comprehension \<open>[date2num(t) for t in color]\<close> stops at the first failure.\<close>

fun date2num_all :: "('t \<Rightarrow> real) \<Rightarrow> 't color_value list \<Rightarrow> error + 't color_value list" where
  "date2num_all date2num [] = Inr []"
| "date2num_all date2num (c # cs) =
     bind_err (date2num_of date2num c) (\<lambda>n.
       bind_err (date2num_all date2num cs) (\<lambda>ns. Inr (n # ns)))"

text \<open>
  Lines 149-153 and 413-417: the pair of \<open>datetimeplot\<close> and the new value of \<open>color\<close>.
\<close>

definition normalize_color :: "('t \<Rightarrow> real) \<Rightarrow> 't color_arg \<Rightarrow> error + (bool \<times> 't color_arg)" where
  "normalize_color date2num color =
     bind_err (first_color color) (\<lambda>c0.
       if is_timestamp c0
       then bind_err (elements color) (\<lambda>cs.
              bind_err (date2num_all date2num cs) (\<lambda>ns. Inr (True, ColorSeq ns)))
       else Inr (False, color))"

text \<open>
  The colour statements in the order of the source: \<open>min_color\<close>, \<open>max_color\<close>, then the
  conversion. \<open>Normalize(min_color, max_color)\<close> only stores its two arguments.
\<close>

record 't color_axis =
  norm_vmin :: "'t color_value"
  norm_vmax :: "'t color_value"
  datetimeplot :: bool
  scatter_c :: "'t color_arg"

definition color_statements :: "(('t::linorder) \<Rightarrow> real) \<Rightarrow> 't color_arg \<Rightarrow> error + 't color_axis" where
  "color_statements date2num color =
     bind_err (min_color_of color) (\<lambda>min_color.
       bind_err (max_color_of color) (\<lambda>max_color.
         bind_err (normalize_color date2num color) (\<lambda>(dtp, color').
           Inr \<lparr>norm_vmin = min_color, norm_vmax = max_color,
                datetimeplot = dtp, scatter_c = color'\<rparr>)))"

subsection \<open>The colorbar decision (lines 163-170 and 427-434)\<close>

fun hasattr_len :: "'t color_arg \<Rightarrow> bool" where
  "hasattr_len (ColorSeq cs) = True"
| "hasattr_len (ColorStr s) = True"
| "hasattr_len (ColorScalar c) = False"

fun isinstance_str :: "'t color_arg \<Rightarrow> bool" where
  "isinstance_str (ColorStr s) = True"
| "isinstance_str _ = False"

definition show_colorbar_of :: "bool option \<Rightarrow> real list \<Rightarrow> 't color_arg \<Rightarrow> bool" where
  "show_colorbar_of colorbar lons color =
     (case colorbar of
        Some b \<Rightarrow> b
      | None \<Rightarrow>
          if length lons > 1 \<and> hasattr_len color \<and> \<not> isinstance_str color
          then True else False)"

subsection \<open>Centre of the \<open>local\<close> projection (lines 196-205 and 449-458, the same text)\<close>

text \<open>\<open>min(lons) < -150 and max(lons) > 150\<close>; \<open>and\<close> evaluates its right side only if needed.\<close>

definition straddles :: "real list \<Rightarrow> error + bool" where
  "straddles lons =
     bind_err (py_min lons) (\<lambda>mn.
       if mn < - 150 then bind_err (py_max lons) (\<lambda>mx. Inr (mx > 150)) else Inr False)"

text \<open>The pair \<open>(max_lons, min_lons)\<close>.\<close>

definition lon_bounds :: "real list \<Rightarrow> error + (real \<times> real)" where
  "lon_bounds lons =
     bind_err (straddles lons) (\<lambda>wrap.
       if wrap
       then bind_err (py_max (map (\<lambda>x. py_mod x 360) lons)) (\<lambda>max_lons.
              bind_err (py_min (map (\<lambda>x. py_mod x 360) lons)) (\<lambda>min_lons.
                Inr (max_lons, min_lons)))
       else bind_err (py_max lons) (\<lambda>max_lons.
              bind_err (py_min lons) (\<lambda>min_lons.
                Inr (max_lons, min_lons))))"

record local_geom =
  g_lat_0 :: real
  g_lon_0 :: real
  g_max_lons :: real
  g_min_lons :: real

definition local_center :: "real list \<Rightarrow> real list \<Rightarrow> error + local_geom" where
  "local_center lons lats =
     bind_err (lon_bounds lons) (\<lambda>(max_lons, min_lons).
       bind_err (py_max lats) (\<lambda>max_lats.
         bind_err (py_min lats) (\<lambda>min_lats.
           let lat_0 = max_lats / 2 + min_lats / 2;
               lon_0 = max_lons / 2 + min_lons / 2;
               lon_0 = (if lon_0 > 180 then lon_0 - 360 else lon_0)
           in Inr \<lparr>g_lat_0 = lat_0, g_lon_0 = lon_0,
                   g_max_lons = max_lons, g_min_lons = min_lons\<rparr>)))"

subsection \<open>Footprint before the aspect adjustment\<close>

text \<open>Lines 459-467 of \<open>plot_cartopy\<close>, in degrees: the pair \<open>(width, height)\<close>.\<close>

definition cartopy_footprint :: "real list \<Rightarrow> local_geom \<Rightarrow> error + (real \<times> real)" where
  "cartopy_footprint lats g =
     (if length lats > 1
      then bind_err (py_max lats) (\<lambda>max_lats.
             bind_err (py_min lats) (\<lambda>min_lats.
               let height = max_lats - min_lats;
                   width = g_max_lons g - g_min_lons g;
                   margin = 0.2 * (width + height)
               in Inr (width + margin, height + margin)))
      else Inr (5.0, 2.0))"

text \<open>Lines 206-216 of \<open>plot_basemap\<close>, in metres on a sphere of radius 6371 km.\<close>

definition deg2m_lat :: real where
  "deg2m_lat = 2 * pi * 6371 * 1000 / 360"

definition deg2m_lon :: "real \<Rightarrow> real" where
  "deg2m_lon lat_0 = deg2m_lat * cos (lat_0 / 180 * pi)"

definition basemap_footprint :: "real list \<Rightarrow> local_geom \<Rightarrow> error + (real \<times> real)" where
  "basemap_footprint lats g =
     (if length lats > 1
      then bind_err (py_max lats) (\<lambda>max_lats.
             bind_err (py_min lats) (\<lambda>min_lats.
               let height = (max_lats - min_lats) * deg2m_lat;
                   width = (g_max_lons g - g_min_lons g) * deg2m_lon (g_lat_0 g);
                   margin = 0.2 * (width + height)
               in Inr (width + margin, height + margin)))
      else Inr (5.0 * deg2m_lon (g_lat_0 g), 2.0 * deg2m_lat))"

subsection \<open>Aspect adjustment (lines 217-226 and 468-477, the same text)\<close>

text \<open>
  \<open>fig.get_size_inches()\<close> is the size \<open>(w, h)\<close> of the figure, two numpy floats given by
  matplotlib; it is a parameter. \<open>aspect\<close> is their quotient, times 1.2 with a colorbar.
\<close>

definition figure_aspect :: "real \<times> real \<Rightarrow> bool \<Rightarrow> error + real" where
  "figure_aspect size_inches show_colorbar =
     (case size_inches of (w, h) \<Rightarrow>
        if h = 0 then Inl NotANumber
        else let aspect = w / h
             in Inr (if show_colorbar then aspect * 1.2 else aspect))"

text \<open>
  \<open>width / height\<close> divides two Python floats in \<open>plot_cartopy\<close> (ZeroDivisionError at
  \<open>height = 0\<close>) and two numpy floats in \<open>plot_basemap\<close> (\<open>nan\<close> or \<open>inf\<close>): \<open>zero\<close> is
  the error of that division. \<open>aspect\<close> is a numpy float in both. This exact model stops
  at \<open>height = 0\<close>; \<open>aspect_adjust_fp\<close> below follows the numpy floats past it.
\<close>

definition aspect_adjust :: "error \<Rightarrow> real \<Rightarrow> real \<times> real \<Rightarrow> error + (real \<times> real)" where
  "aspect_adjust zero aspect footprint =
     (case footprint of (width, height) \<Rightarrow>
        if height = 0 then Inl zero
        else if width / height < aspect then Inr (height * aspect, height)
        else if aspect = 0 then Inl NotANumber
        else Inr (width, width / aspect))"

subsection \<open>Footprint and aspect adjustment of \<open>plot_cartopy\<close> in double precision\<close>






record extent =
  lat_0 :: real
  lon_0 :: real
  width :: real
  height :: real

definition cartopy_local :: "real \<times> real \<Rightarrow> bool \<Rightarrow> real list \<Rightarrow> real list \<Rightarrow> error + extent" where
  "cartopy_local size_inches show_colorbar lons lats =
     bind_err (local_center lons lats) (\<lambda>g.
       bind_err (cartopy_footprint lats g) (\<lambda>footprint.
         bind_err (figure_aspect size_inches show_colorbar) (\<lambda>aspect.
           bind_err (aspect_adjust ZeroDivisionError aspect footprint) (\<lambda>(w, h).
             Inr \<lparr>lat_0 = g_lat_0 g, lon_0 = g_lon_0 g, width = w, height = h\<rparr>))))"

definition basemap_local :: "real \<times> real \<Rightarrow> bool \<Rightarrow> real list \<Rightarrow> real list \<Rightarrow> error + extent" where
  "basemap_local size_inches show_colorbar lons lats =
     bind_err (local_center lons lats) (\<lambda>g.
       bind_err (basemap_footprint lats g) (\<lambda>footprint.
         bind_err (figure_aspect size_inches show_colorbar) (\<lambda>aspect.
           bind_err (aspect_adjust NotANumber aspect footprint) (\<lambda>(w, h).
             Inr \<lparr>lat_0 = g_lat_0 g, lon_0 = g_lon_0 g, width = w, height = h\<rparr>))))"

text \<open>
  Lines 517-519: the four numbers handed to \<open>set_extent\<close>, west, east, south, north.
\<close>

definition set_extent_args :: "extent \<Rightarrow> real \<times> real \<times> real \<times> real" where
  "set_extent_args e =
     (lon_0 e - width e / 2, lon_0 e + width e / 2,
      lat_0 e - height e / 2, lat_0 e + height e / 2)"

subsection \<open>Gridlines of the \<open>local\<close> projection (lines 251-261 and 554-564)\<close>

text \<open>\<open>int(np.ceil(part / max(width, height) * 8))\<close>.\<close>

definition tick_count :: "real \<Rightarrow> extent \<Rightarrow> error + int" where
  "tick_count part e =
     (if max (width e) (height e) = 0 then Inl NotANumber
      else Inr \<lceil>part / max (width e) (height e) * 8\<rceil>)"

text \<open>\<open>meridians[meridians > 180] -= 360\<close>.\<close>

definition wrap_meridians :: "real list \<Rightarrow> real list" where
  "wrap_meridians ms = map (\<lambda>m. if m > 180 then m - 360 else m) ms"

text \<open>
  The pair of parallels and meridians. \<open>per_lat\<close> and \<open>per_lon\<close> are the units of \<open>height\<close>
  and \<open>width\<close> per degree: 1 in \<open>plot_cartopy\<close>, metres per degree in \<open>plot_basemap\<close>.
\<close>

definition local_gridlines ::
  "real \<Rightarrow> real \<Rightarrow> real list \<Rightarrow> extent \<Rightarrow> error + (real list \<times> real list)" where
  "local_gridlines per_lat per_lon lons e =
     bind_err (tick_count (height e) e) (\<lambda>N1.
       bind_err (tick_count (width e) e) (\<lambda>N2.
         if per_lat = 0 then Inl NotANumber
         else bind_err (linspace2 (lat_0 e - height e / 2 / per_lat)
                                  (lat_0 e + height e / 2 / per_lat) N1) (\<lambda>parallels.
           bind_err (straddles lons) (\<lambda>wrap.
             let lon_0' = (if wrap then py_mod (lon_0 e) 360 else lon_0 e)
             in if per_lon = 0 then Inl NotANumber
                else bind_err (linspace2 (lon_0' - width e / 2 / per_lon)
                                         (lon_0' + width e / 2 / per_lon) N2) (\<lambda>meridians.
                  Inr (parallels, wrap_meridians meridians))))))"

subsection \<open>Arguments of a call\<close>

text \<open>
  \<open>projection\<close> is a name or, for \<open>plot_cartopy\<close>, a projection class; \<open>ProjClass\<close> carries
  the text that \<open>%s\<close> prints for the class. A keyword argument left out is \<open>None\<close> here and
  takes the default of the renderer. \<open>size\<close>, \<open>labels\<close>, the colours of land and water, the
  colormap, \<open>marker\<close>, \<open>title\<close>, the tick label format and \<open>show\<close> only reach the drawing
  calls and are left out.
\<close>

datatype projection = ProjName string | ProjClass string

fun str_of :: "projection \<Rightarrow> string" where
  "str_of (ProjName s) = s"
| "str_of (ProjClass s) = s"

fun isinstance_type :: "projection \<Rightarrow> bool" where
  "isinstance_type (ProjClass s) = True"
| "isinstance_type (ProjName s) = False"

datatype kwarg = Auto | Number real | NaN

record 't call_args =
  arg_lons :: "real list"
  arg_lats :: "real list"
  arg_color :: "'t color_arg"
  arg_projection :: "projection option"
  arg_resolution :: "string option"
  arg_colorbar :: "bool option"
  arg_proj_kwargs :: "(string \<rightharpoonup> kwarg) option"

text \<open>What the model takes from matplotlib: \<open>date2num\<close> and the size of a new figure.\<close>

record 't matplotlib =
  date2num :: "'t \<Rightarrow> real"
  size_inches :: "real \<times> real"

subsection \<open>Tables and small pieces\<close>

definition BASEMAP_RESOLUTIONS :: "string \<rightharpoonup> string" where
  "BASEMAP_RESOLUTIONS =
     map_of [(''110m'', ''l''), (''50m'', ''i''), (''10m'', ''f''), (''c'', ''c''),
             (''l'', ''l''), (''i'', ''i''), (''h'', ''h''), (''f'', ''f'')]"

definition CARTOPY_RESOLUTIONS :: "string \<rightharpoonup> string" where
  "CARTOPY_RESOLUTIONS =
     map_of [(''c'', ''110m''), (''l'', ''110m''), (''i'', ''50m''), (''h'', ''50m''),
             (''f'', ''10m''), (''110m'', ''110m''), (''50m'', ''50m''), (''10m'', ''10m'')]"

definition lookup :: "(string \<rightharpoonup> string) \<Rightarrow> string \<Rightarrow> error + string" where
  "lookup table key = (case table key of None \<Rightarrow> Inl (KeyError key) | Some v \<Rightarrow> Inr v)"

definition quoted :: "string \<Rightarrow> string" where
  "quoted s = [CHR 0x27] @ s @ [CHR 0x27]"

definition projection_message :: "projection \<Rightarrow> string" where
  "projection_message projection = ''Projection '' @ quoted (str_of projection) @ '' not supported.''"

definition method_message :: "string \<Rightarrow> string" where
  "method_message method =
     ''The method argument must be either 'basemap' or 'cartopy', not '' @ quoted method @ ''.''"

text \<open>
  The rectangles \<open>[x0, y0, width, height]\<close> of the map axes and, with a colorbar, of the
  colorbar axes (lines 172-186; lines 436-439 and 505-515).
\<close>

type_synonym rect = "real \<times> real \<times> real \<times> real"

definition axes_rects :: "projection \<Rightarrow> bool \<Rightarrow> rect \<times> rect option" where
  "axes_rects projection show_colorbar =
     (let (ax_x0, ax_width) = (if projection = ProjName ''local'' then (0.10, 0.80) else (0.05, 0.90))
      in if show_colorbar
         then ((ax_x0, 0.13, ax_width, 0.77), Some (ax_x0, 0.05, ax_width, 0.05))
         else let (ax_y0, ax_height) =
                    (if projection = ProjName ''local'' then (0.05 + 0.05, 0.85 - 0.05) else (0.05, 0.85))
              in ((ax_x0, ax_y0, ax_width, ax_height), None))"

text \<open>\<open>np.arange(start, stop, step)\<close> on integers with a positive step.\<close>

definition np_arange :: "int \<Rightarrow> int \<Rightarrow> int \<Rightarrow> real list" where
  "np_arange start stop step =
     map (\<lambda>k. of_int (start + int k * step)) [0..<nat ((stop - start + step - 1) div step)]"

subsection \<open>\<open>plot_basemap\<close> (lines 80-330)\<close>

datatype bmap =
    BCyl string
  | BOrtho string "real option" "real option"
  | BLocal string extent "real list" "real list"

record 't basemap_figure =
  b_colors :: "'t color_axis"
  b_show_colorbar :: bool
  b_axes :: "rect \<times> rect option"
  b_bmap :: bmap

definition plot_basemap :: "('t::linorder) matplotlib \<Rightarrow> 't call_args \<Rightarrow> error + 't basemap_figure" where
  "plot_basemap mpl args =
     (let lons = arg_lons args; lats = arg_lats args;
          projection = (case arg_projection args of None \<Rightarrow> ProjName ''cyl'' | Some p \<Rightarrow> p);
          resolution = (case arg_resolution args of None \<Rightarrow> ''l'' | Some r \<Rightarrow> r)
      in bind_err (color_statements (date2num mpl) (arg_color args)) (\<lambda>colors.
           let show_colorbar = show_colorbar_of (arg_colorbar args) lons (scatter_c colors);
               axes = axes_rects projection show_colorbar
           in bind_err
                (if projection = ProjName ''cyl''
                 then bind_err (lookup BASEMAP_RESOLUTIONS resolution) (\<lambda>r. Inr (BCyl r))
                 else if projection = ProjName ''ortho''
                 then bind_err (lookup BASEMAP_RESOLUTIONS resolution) (\<lambda>r.
                        Inr (BOrtho r (np_mean lats) (np_mean lons)))
                 else if projection = ProjName ''local''
                 then bind_err (basemap_local (size_inches mpl) show_colorbar lons lats) (\<lambda>e.
                        bind_err (lookup BASEMAP_RESOLUTIONS resolution) (\<lambda>r.
                          bind_err (local_gridlines deg2m_lat (deg2m_lon (lat_0 e)) lons e)
                            (\<lambda>(parallels, meridians). Inr (BLocal r e parallels meridians))))
                 else Inl (ValueError (projection_message projection)))
                (\<lambda>bm. Inr \<lparr>b_colors = colors, b_show_colorbar = show_colorbar,
                             b_axes = axes, b_bmap = bm\<rparr>)))"

subsection \<open>\<open>plot_cartopy\<close> (lines 333-616)\<close>

text \<open>
  The projection is a class of Cartopy and its keyword arguments. In the user's
  \<open>proj_kwargs\<close> the value \<open>'auto'\<close> of four keys is replaced by a mean of the data.
\<close>

definition mean_kwarg :: "real list \<Rightarrow> kwarg" where
  "mean_kwarg xs = (case np_mean xs of None \<Rightarrow> NaN | Some m \<Rightarrow> Number m)"

definition replace_auto :: "string \<Rightarrow> kwarg \<Rightarrow> (string \<rightharpoonup> kwarg) \<Rightarrow> (string \<rightharpoonup> kwarg)" where
  "replace_auto key v kw = (if kw key = Some Auto then kw(key \<mapsto> v) else kw)"

record 't cartopy_figure =
  c_colors :: "'t color_axis"
  c_show_colorbar :: bool
  c_axes :: "rect \<times> rect option"
  c_proj :: "string \<times> (string \<rightharpoonup> kwarg)"
  c_extent :: "extent option"
  c_coastlines :: string
  c_xlocator :: "real list"
  c_ylocator :: "real list"

definition plot_cartopy :: "('t::linorder) matplotlib \<Rightarrow> 't call_args \<Rightarrow> error + 't cartopy_figure" where
  "plot_cartopy mpl args =
     (let lons = arg_lons args; lats = arg_lats args;
          projection = (case arg_projection args of None \<Rightarrow> ProjName ''cyl'' | Some p \<Rightarrow> p);
          resolution = (case arg_resolution args of None \<Rightarrow> ''110m'' | Some r \<Rightarrow> r)
      in bind_err (color_statements (date2num mpl) (arg_color args)) (\<lambda>colors.
           let show_colorbar = show_colorbar_of (arg_colorbar args) lons (scatter_c colors);
               proj_kwargs = (case arg_proj_kwargs args of None \<Rightarrow> Map.empty | Some kw \<Rightarrow> kw)
           in bind_err
                (if projection = ProjName ''cyl''
                 then Inr ((''PlateCarree'', proj_kwargs), None)
                 else if projection = ProjName ''ortho''
                 then Inr ((''Orthographic'',
                            proj_kwargs(''central_latitude'' \<mapsto> mean_kwarg lats,
                                        ''central_longitude'' \<mapsto> mean_kwarg lons)), None)
                 else if projection = ProjName ''local''
                 then bind_err (cartopy_local (size_inches mpl) show_colorbar lons lats) (\<lambda>e.
                        Inr ((''Stereographic'',
                              proj_kwargs(''central_latitude'' \<mapsto> Number (lat_0 e),
                                          ''central_longitude'' \<mapsto> Number (lon_0 e))), Some e))
                 else if isinstance_type projection
                 then Inr ((str_of projection,
                            replace_auto ''pole_latitude'' (mean_kwarg lats)
                              (replace_auto ''pole_longitude'' (mean_kwarg lons)
                                (replace_auto ''central_latitude'' (mean_kwarg lats)
                                  (replace_auto ''central_longitude'' (mean_kwarg lons) proj_kwargs)))),
                           None)
                 else Inl (ValueError (projection_message projection)))
                (\<lambda>(proj, ext).
                   let axes = axes_rects projection show_colorbar
                   in bind_err (lookup CARTOPY_RESOLUTIONS resolution) (\<lambda>coast.
                        bind_err
                          (case ext of
                             Some e \<Rightarrow>
                               bind_err (local_gridlines 1 1 lons e) (\<lambda>(parallels, meridians).
                                 Inr (meridians, parallels))
                           | None \<Rightarrow> Inr (np_arange (- 180) 181 30, np_arange (- 90) 91 30))
                          (\<lambda>(xs, ys).
                             Inr \<lparr>c_colors = colors, c_show_colorbar = show_colorbar,
                                  c_axes = axes, c_proj = proj, c_extent = ext,
                                  c_coastlines = coast, c_xlocator = xs, c_ylocator = ys\<rparr>)))))"

subsection \<open>\<open>plot_map\<close> (lines 619-638)\<close>

datatype 't figure = Basemap_Figure "'t basemap_figure" | Cartopy_Figure "'t cartopy_figure"

definition plot_map :: "('t::linorder) matplotlib \<Rightarrow> string \<Rightarrow> 't call_args \<Rightarrow> error + 't figure" where
  "plot_map mpl method args =
     (if method = ''basemap''
      then bind_err (plot_basemap mpl args) (\<lambda>fig. Inr (Basemap_Figure fig))
      else if method = ''cartopy''
      then bind_err (plot_cartopy mpl args) (\<lambda>fig. Inr (Cartopy_Figure fig))
      else Inl (ValueError (method_message method)))"

subsection \<open>Errors the module does not raise itself\<close>

text \<open>
  The module has three \<open>raise\<close> statements (lines 264, 503 and 637), all of ValueError with
  a message of its own. Every other error comes out of a builtin or a library: an
  exception of another class, or the ValueError of \<open>min\<close> and \<open>max\<close> on an empty sequence.
\<close>

fun propagated :: "error \<Rightarrow> bool" where
  "propagated (ValueError m) =
     (m = ''min() arg is an empty sequence'' \<or> m = ''max() arg is an empty sequence'')"
| "propagated _ = True"

section \<open>Properties\<close>

subsection \<open>Basic facts\<close>

lemma bind_err_Inl [simp]: "bind_err (Inl e) f = Inl e"
  by (simp add: bind_err_def)

lemma bind_err_Inr [simp]: "bind_err (Inr a) f = f a"
  by (simp add: bind_err_def)

lemma bind_err_eq_Inr: "bind_err m f = Inr b \<longleftrightarrow> (\<exists>a. m = Inr a \<and> f a = Inr b)"
  by (cases m) simp_all

lemma fold_min_Min: "fold min xs (x::real) = Min (set (x # xs))"
  by (simp only: Min.set_eq_fold)

lemma fold_max_Max: "fold max xs (x::real) = Max (set (x # xs))"
  by (simp only: Max.set_eq_fold)

lemma py_min_Min: "xs \<noteq> [] \<Longrightarrow> py_min xs = Inr (Min (set xs))"
  by (cases xs) (simp_all only: py_min.simps fold_min_Min, simp)

lemma py_max_Max: "xs \<noteq> [] \<Longrightarrow> py_max xs = Inr (Max (set xs))"
  by (cases xs) (simp_all only: py_max.simps fold_max_Max, simp)

lemma py_min_Inr: "py_min xs = Inr m \<Longrightarrow> xs \<noteq> [] \<and> m = Min (set xs)"
  by (cases xs) (simp_all only: py_min.simps fold_min_Min, simp_all)

lemma py_max_Inr: "py_max xs = Inr m \<Longrightarrow> xs \<noteq> [] \<and> m = Max (set xs)"
  by (cases xs) (simp_all only: py_max.simps fold_max_Max, simp_all)

lemma log10_lower: "1 < log 10 (25 / 2)"
  by (simp add: less_log_iff)

lemma log10_upper: "log 10 (25 / 2) < 3 / 2"
proof -
  have "log 10 ((25 / 2)\<^sup>2) < log 10 (10 ^ 3)"
    by (subst log_less_cancel_iff) (simp_all add: power2_eq_square)
  moreover have "log 10 ((10::real) ^ 3) = 3"
    using log_pow_cancel [of 10 3] by simp
  ultimately have "2 * log 10 (25 / 2) < 3"
    by (simp add: log_nat_power)
  then show ?thesis by simp
qed

lemma round_pos_100_8: "py_round (- log 10 (25 / 2)) = - 1"
proof -
  have "\<lfloor>- log 10 (25 / 2)\<rfloor> = - 2"
    using log10_lower log10_upper by (simp add: floor_eq_iff)
  then show ?thesis
    using log10_lower log10_upper by (simp add: py_round_def Let_def)
qed

lemma py_round_five_halves: "py_round (5 / 2) = 2"
  by (simp add: py_round_def Let_def)

subsection \<open>The ticks of \<open>linspace2(0, 100, 8)\<close>\<close>

lemma linspace2_0_100_8: "linspace2 0 100 8 = Inr [0, 10, 20, 30, 40, 50, 60, 70, 80, 90, 100]"
  by (simp add: linspace2_def np_log10_def round_pos_100_8 py_round_five_halves
      np_linspace_def Let_def upt_rec)

text \<open>
  C1, as amended. \<open>linspace2(0, 100, 8)\<close> returns the eleven values 0, 10, ..., 100: the
  multiples \<open>k * 10\<close> of the one delta 10 for \<open>k\<close> from 0 to 10. The sequence is strictly
  increasing, it starts at 0 and ends at 100, both inside [0, 100], and it has 11 elements,
  which is within 3 of 8. (\<open>round(2.5)\<close> is 2, half to even, so delta is 10 and not 15.)
\<close>

theorem linspace2_nice_ticks:
  "linspace2 0 100 8 = Inr (map (\<lambda>k. of_int k * 10) [0..10])
   \<and> sorted_wrt (<) (projr (linspace2 0 100 8))
   \<and> 0 \<le> hd (projr (linspace2 0 100 8))
   \<and> last (projr (linspace2 0 100 8)) \<le> 100
   \<and> length (projr (linspace2 0 100 8)) = 11"
  by (simp add: linspace2_0_100_8 upto.simps)

text \<open>
  C1 as stated asks for between 6 and 10 elements; the call returns 11.
\<close>

theorem linspace2_count_counterexample:
  "linspace2 0 100 8 = Inr [0, 10, 20, 30, 40, 50, 60, 70, 80, 90, 100]
   \<and> \<not> (6 \<le> length (projr (linspace2 0 100 8)) \<and> length (projr (linspace2 0 100 8)) \<le> 10)"
  by (simp add: linspace2_0_100_8)


subsection \<open>The centre of the \<open>local\<close> projection\<close>

lemma straddles_eq:
  "lons \<noteq> [] \<Longrightarrow> straddles lons = Inr (Min (set lons) < - 150 \<and> Max (set lons) > 150)"
  by (simp add: straddles_def py_min_Min py_max_Max)

lemma lon_bounds_eq:
  "lons \<noteq> [] \<Longrightarrow>
   lon_bounds lons =
     Inr (if Min (set lons) < - 150 \<and> Max (set lons) > 150
          then (Max (set (map (\<lambda>x. py_mod x 360) lons)), Min (set (map (\<lambda>x. py_mod x 360) lons)))
          else (Max (set lons), Min (set lons)))"
  by (simp add: lon_bounds_def straddles_eq py_min_Min py_max_Max)

lemma local_center_eq:
  assumes "lons \<noteq> []" "lats \<noteq> []"
  shows "local_center lons lats =
     Inr (let (mx, mn) = (if Min (set lons) < - 150 \<and> Max (set lons) > 150
                          then (Max (set (map (\<lambda>x. py_mod x 360) lons)),
                                Min (set (map (\<lambda>x. py_mod x 360) lons)))
                          else (Max (set lons), Min (set lons)))
          in \<lparr>g_lat_0 = Max (set lats) / 2 + Min (set lats) / 2,
              g_lon_0 = (if mx / 2 + mn / 2 > 180 then mx / 2 + mn / 2 - 360 else mx / 2 + mn / 2),
              g_max_lons = mx, g_min_lons = mn\<rparr>)"
  using assms by (simp add: local_center_def lon_bounds_eq py_min_Min py_max_Max Let_def)

lemma local_center_Inr:
  "local_center lons lats = Inr g \<Longrightarrow> lons \<noteq> [] \<and> lats \<noteq> []"
  by (auto simp: local_center_def lon_bounds_def straddles_def bind_err_eq_Inr
      dest: py_min_Inr py_max_Inr split: if_splits)

lemma cartopy_local_center:
  "cartopy_local sz cb lons lats = Inr e \<Longrightarrow>
   \<exists>g. local_center lons lats = Inr g \<and> lon_0 e = g_lon_0 g \<and> lat_0 e = g_lat_0 g"
  by (auto simp: cartopy_local_def bind_err_eq_Inr)

lemma basemap_local_center:
  "basemap_local sz cb lons lats = Inr e \<Longrightarrow>
   \<exists>g. local_center lons lats = Inr g \<and> lon_0 e = g_lon_0 g \<and> lat_0 e = g_lat_0 g"
  by (auto simp: basemap_local_def bind_err_eq_Inr)

text \<open>
  C2. When the longitudes straddle the antimeridian (smallest below -150, largest above
  150), the centre longitude of both renderers is the midpoint of the largest and the
  smallest longitude modulo 360, minus 360 if that midpoint exceeds 180. For the
  longitudes -179 and 179 the centre longitude is exactly 180.
\<close>

theorem center_longitude_antimeridian:
  "(lons \<noteq> [] \<and> Min (set lons) < - 150 \<and> Max (set lons) > 150 \<longrightarrow>
      (\<forall>lats. lats \<noteq> [] \<longrightarrow>
         map_sum id g_lon_0 (local_center lons lats) =
           Inr (let m = (Max (set (map (\<lambda>x. py_mod x 360) lons))
                         + Min (set (map (\<lambda>x. py_mod x 360) lons))) / 2
                in if m > 180 then m - 360 else m))
      \<and> (\<forall>sz cb lats e. cartopy_local sz cb lons lats = Inr e \<or> basemap_local sz cb lons lats = Inr e \<longrightarrow>
           lon_0 e = (let m = (Max (set (map (\<lambda>x. py_mod x 360) lons))
                               + Min (set (map (\<lambda>x. py_mod x 360) lons))) / 2
                      in if m > 180 then m - 360 else m)))
   \<and> (\<forall>lats. lats \<noteq> [] \<longrightarrow> map_sum id g_lon_0 (local_center [- 179, 179] lats) = Inr 180)"
proof (intro conjI impI allI)
  fix lats :: "real list"
  assume "lats \<noteq> []"
  then show "map_sum id g_lon_0 (local_center [- 179, 179] lats) = Inr 180"
    by (simp add: local_center_eq py_mod_def Let_def)
next
  fix lats :: "real list"
  assume a: "lons \<noteq> [] \<and> Min (set lons) < - 150 \<and> Max (set lons) > 150" and "lats \<noteq> []"
  then show "map_sum id g_lon_0 (local_center lons lats) =
           Inr (let m = (Max (set (map (\<lambda>x. py_mod x 360) lons))
                         + Min (set (map (\<lambda>x. py_mod x 360) lons))) / 2
                in if m > 180 then m - 360 else m)"
    by (simp add: local_center_eq Let_def add_divide_distrib)
next
  fix sz cb lats e
  assume a: "lons \<noteq> [] \<and> Min (set lons) < - 150 \<and> Max (set lons) > 150"
    and r: "cartopy_local sz cb lons lats = Inr e \<or> basemap_local sz cb lons lats = Inr e"
  from r obtain g where g: "local_center lons lats = Inr g" "lon_0 e = g_lon_0 g"
    using cartopy_local_center basemap_local_center by blast
  then have "lats \<noteq> []" using local_center_Inr by blast
  with a g show "lon_0 e = (let m = (Max (set (map (\<lambda>x. py_mod x 360) lons))
                               + Min (set (map (\<lambda>x. py_mod x 360) lons))) / 2
                      in if m > 180 then m - 360 else m)"
    by (auto simp add: local_center_eq Let_def add_divide_distrib)
qed

text \<open>
  The longitudes -160 and 170 are 200 and 170 modulo 360: the midpoint 185 exceeds 180
  and the centre is -175.
\<close>

theorem center_longitude_antimeridian_witness:
  "map_sum id g_lon_0 (local_center [- 160, 170] [10, 20]) = Inr (- 175)
   \<and> map_sum id g_lon_0 (local_center [- 179, 179] [10, 20]) = Inr 180"
  using center_longitude_antimeridian [of "[- 160, 170]"]
  by (simp add: py_mod_def)

lemma straddles_False:
  assumes "lons \<noteq> []" "\<not> (Min (set lons) < - 150 \<and> Max (set lons) > 150)"
  shows "straddles lons = Inr False"
  using straddles_eq [OF assms(1)] assms(2) by (simp only: simp_thms)

lemma local_center_plain:
  assumes "lons \<noteq> []" "lats \<noteq> []" "\<not> (Min (set lons) < - 150 \<and> Max (set lons) > 150)"
  shows "local_center lons lats =
     Inr \<lparr>g_lat_0 = Max (set lats) / 2 + Min (set lats) / 2,
          g_lon_0 = (if (Max (set lons) + Min (set lons)) / 2 > 180
                     then (Max (set lons) + Min (set lons)) / 2 - 360
                     else (Max (set lons) + Min (set lons)) / 2),
          g_max_lons = Max (set lons), g_min_lons = Min (set lons)\<rparr>"
  using assms(1,2)
  by (simp add: local_center_def lon_bounds_def straddles_False [OF assms(1,3)]
      py_min_Min py_max_Max Let_def add_divide_distrib)

text \<open>
  C3, as amended. When the longitudes do not straddle the antimeridian (smallest at least
  -150 or largest at most 150), the centre longitude of both renderers is the midpoint
  \<open>(max + min) / 2\<close> of the largest and the smallest longitude if that midpoint is at
  most 180, and the midpoint minus 360 otherwise. The midpoint is at most 180 whenever no
  longitude exceeds 180.
\<close>

theorem center_longitude_midpoint:
  "lons \<noteq> [] \<and> (Min (set lons) \<ge> - 150 \<or> Max (set lons) \<le> 150) \<longrightarrow>
     (\<forall>lats. lats \<noteq> [] \<longrightarrow>
        map_sum id g_lon_0 (local_center lons lats) =
          Inr (if (Max (set lons) + Min (set lons)) / 2 > 180
               then (Max (set lons) + Min (set lons)) / 2 - 360
               else (Max (set lons) + Min (set lons)) / 2))
     \<and> (\<forall>sz cb lats e.
          cartopy_local sz cb lons lats = Inr e \<or> basemap_local sz cb lons lats = Inr e \<longrightarrow>
          lon_0 e = (if (Max (set lons) + Min (set lons)) / 2 > 180
                     then (Max (set lons) + Min (set lons)) / 2 - 360
                     else (Max (set lons) + Min (set lons)) / 2))
     \<and> ((\<forall>x \<in> set lons. x \<le> 180) \<longrightarrow> (Max (set lons) + Min (set lons)) / 2 \<le> 180)"
proof (intro conjI impI allI)
  fix lats :: "real list"
  assume a: "lons \<noteq> [] \<and> (Min (set lons) \<ge> - 150 \<or> Max (set lons) \<le> 150)" and l: "lats \<noteq> []"
  from a have "\<not> (Min (set lons) < - 150 \<and> Max (set lons) > 150)"
    by linarith
  from local_center_plain [OF _ l this] a
  show "map_sum id g_lon_0 (local_center lons lats) =
          Inr (if (Max (set lons) + Min (set lons)) / 2 > 180
               then (Max (set lons) + Min (set lons)) / 2 - 360
               else (Max (set lons) + Min (set lons)) / 2)"
    by simp
next
  fix sz cb lats e
  assume a: "lons \<noteq> [] \<and> (Min (set lons) \<ge> - 150 \<or> Max (set lons) \<le> 150)"
    and r: "cartopy_local sz cb lons lats = Inr e \<or> basemap_local sz cb lons lats = Inr e"
  from r obtain g where g: "local_center lons lats = Inr g" "lon_0 e = g_lon_0 g"
    using cartopy_local_center basemap_local_center by blast
  then have l: "lats \<noteq> []" using local_center_Inr by blast
  from a have "\<not> (Min (set lons) < - 150 \<and> Max (set lons) > 150)"
    by linarith
  from local_center_plain [OF _ l this] a g
  show "lon_0 e = (if (Max (set lons) + Min (set lons)) / 2 > 180
                     then (Max (set lons) + Min (set lons)) / 2 - 360
                     else (Max (set lons) + Min (set lons)) / 2)"
    by auto
next
  assume a: "lons \<noteq> [] \<and> (Min (set lons) \<ge> - 150 \<or> Max (set lons) \<le> 150)"
    and b: "\<forall>x \<in> set lons. x \<le> 180"
  from a have "Max (set lons) \<in> set lons" "Min (set lons) \<in> set lons"
    by simp_all
  with b have "Max (set lons) \<le> 180" "Min (set lons) \<le> 180" by blast+
  then show "(Max (set lons) + Min (set lons)) / 2 \<le> 180" by simp
qed

text \<open>The longitudes 10 and 30 have the centre 20.\<close>

theorem center_longitude_midpoint_witness:
  "map_sum id g_lon_0 (local_center [10, 30] [50, 60]) = Inr 20
   \<and> (Max (set [10, 30 :: real]) + Min (set [10, 30])) / 2 \<le> 180"
  using center_longitude_midpoint [of "[10, 30]"]
  by simp

text \<open>
  C3 as stated fails for longitudes written in the range from 0 to 360: 190 and 200 do not
  straddle, their midpoint is 195, and the centre is -165, since \<open>lon_0 > 180\<close> is tested
  in both branches.
\<close>

theorem center_longitude_midpoint_counterexample:
  "map_sum id g_lon_0 (local_center [190, 200] [0, 1]) = Inr (- 165)
   \<and> map_sum id lon_0 (cartopy_local (8, 6) True [190, 200] [0, 1]) = Inr (- 165)
   \<and> (Min (set [190, 200 :: real]) \<ge> - 150 \<or> Max (set [190, 200 :: real]) \<le> 150)
   \<and> (- 165 :: real) \<noteq> (Max (set [190, 200]) + Min (set [190, 200])) / 2"
  by (simp add: local_center_def lon_bounds_def straddles_def cartopy_local_def
      cartopy_footprint_def figure_aspect_def aspect_adjust_def Let_def)

subsection \<open>Footprint and aspect adjustment\<close>

lemma Min_le_Max_list:
  assumes "xs \<noteq> []"
  shows "Min (set xs) \<le> Max (set (xs :: real list))"
proof -
  have "hd xs \<in> set xs" using assms by simp
  then have "Min (set xs) \<le> hd xs" "hd xs \<le> Max (set xs)" by simp_all
  then show ?thesis by simp
qed

lemma deg2m_lat_pos: "0 < deg2m_lat"
  by (simp add: deg2m_lat_def)

lemma deg2m_lon_nonneg:
  assumes "- 90 \<le> lat" "lat \<le> 90"
  shows "0 \<le> deg2m_lon lat"
proof -
  have "(- 90) / 180 * pi \<le> lat / 180 * pi" "lat / 180 * pi \<le> 90 / 180 * pi"
    using assms pi_gt_zero by (intro mult_right_mono divide_right_mono; simp)+
  then have "- (pi / 2) \<le> lat / 180 * pi" "lat / 180 * pi \<le> pi / 2"
    by simp_all
  then have "0 \<le> cos (lat / 180 * pi)" by (rule cos_ge_zero)
  then show ?thesis using deg2m_lat_pos by (simp add: deg2m_lon_def)
qed

lemma deg2m_lon_pos:
  assumes "- 90 < lat" "lat < 90"
  shows "0 < deg2m_lon lat"
proof -
  have "(- 90) / 180 * pi < lat / 180 * pi" "lat / 180 * pi < 90 / 180 * pi"
    using assms pi_gt_zero by (intro mult_strict_right_mono divide_strict_right_mono; simp)+
  then have "- (pi / 2) < lat / 180 * pi" "lat / 180 * pi < pi / 2"
    by simp_all
  then have "0 < cos (lat / 180 * pi)" by (rule cos_gt_zero_pi)
  then show ?thesis using deg2m_lat_pos by (simp add: deg2m_lon_def)
qed

lemma figure_aspect_pos:
  assumes "0 < fw" "0 < fh"
  shows "figure_aspect (fw, fh) cb = Inr (if cb then fw / fh * 1.2 else fw / fh)"
    and "0 < (if cb then fw / fh * 1.2 else fw / fh)"
  using assms by (simp_all add: figure_aspect_def Let_def)

lemma aspect_adjust_eq:
  assumes "0 < a" "0 < h"
  shows "aspect_adjust z a (w, h) = Inr (if w / h < a then (h * a, h) else (w, w / a))"
  using assms by (simp add: aspect_adjust_def)

lemma aspect_adjust_Inr:
  assumes "aspect_adjust z a (w, h) = Inr (w', h')" "0 < a" "0 \<le> h" "0 \<le> w"
  shows "0 < h \<and> (w', h') = (if w / h < a then (h * a, h) else (w, w / a))
         \<and> w' / h' = a \<and> w \<le> w' \<and> h \<le> h' \<and> 0 < w' \<and> 0 < h'"
proof -
  from assms have h: "0 < h"
    by (cases "h = 0") (simp_all add: aspect_adjust_def)
  show ?thesis
  proof (cases "w / h < a")
    case True
    then have "w < h * a" using h by (simp add: field_simps)
    moreover have "w' = h * a" "h' = h"
      using assms(1) True h by (auto simp add: aspect_adjust_def)
    ultimately show ?thesis using h True assms(2) by simp
  next
    case False
    then have wa: "h * a \<le> w" using h by (simp add: field_simps)
    then have "0 < w" using mult_pos_pos [OF h assms(2)] by linarith
    moreover have eq: "w' = w" "h' = w / a"
      using assms(1,2) False h by (auto simp add: aspect_adjust_def)
    moreover have "h \<le> w / a" using wa assms(2) by (simp add: field_simps)
    ultimately show ?thesis using h False assms(2) by simp
  qed
qed

lemma local_center_facts:
  assumes "local_center lons lats = Inr g"
  shows "lons \<noteq> []" "lats \<noteq> []" "g_min_lons g \<le> g_max_lons g"
    "g_lat_0 g = Max (set lats) / 2 + Min (set lats) / 2"
proof -
  show ne: "lons \<noteq> []" and le: "lats \<noteq> []"
    using local_center_Inr [OF assms] by simp_all
  have g: "g = (let (mx, mn) = (if Min (set lons) < - 150 \<and> Max (set lons) > 150
                          then (Max (set (map (\<lambda>x. py_mod x 360) lons)),
                                Min (set (map (\<lambda>x. py_mod x 360) lons)))
                          else (Max (set lons), Min (set lons)))
          in \<lparr>g_lat_0 = Max (set lats) / 2 + Min (set lats) / 2,
              g_lon_0 = (if mx / 2 + mn / 2 > 180 then mx / 2 + mn / 2 - 360 else mx / 2 + mn / 2),
              g_max_lons = mx, g_min_lons = mn\<rparr>)"
    using assms local_center_eq [OF ne le] by simp
  have "Min (set (map (\<lambda>x. py_mod x 360) lons)) \<le> Max (set (map (\<lambda>x. py_mod x 360) lons))"
    using ne by (intro Min_le_Max_list) simp
  moreover have "Min (set lons) \<le> Max (set lons)"
    using ne by (rule Min_le_Max_list)
  ultimately show "g_min_lons g \<le> g_max_lons g"
    by (simp add: g Let_def del: set_map)
  show "g_lat_0 g = Max (set lats) / 2 + Min (set lats) / 2"
    by (simp add: g Let_def split: if_splits)
qed

lemma cartopy_footprint_eq:
  assumes "lats \<noteq> []"
  shows "cartopy_footprint lats g =
     Inr (if length lats > 1
          then ((g_max_lons g - g_min_lons g)
                  + 0.2 * ((g_max_lons g - g_min_lons g) + (Max (set lats) - Min (set lats))),
                (Max (set lats) - Min (set lats))
                  + 0.2 * ((g_max_lons g - g_min_lons g) + (Max (set lats) - Min (set lats))))
          else (5, 2))"
  using assms by (simp add: cartopy_footprint_def py_min_Min py_max_Max Let_def)

lemma basemap_footprint_eq:
  assumes "lats \<noteq> []"
  shows "basemap_footprint lats g =
     Inr (if length lats > 1
          then ((g_max_lons g - g_min_lons g) * deg2m_lon (g_lat_0 g)
                  + 0.2 * ((g_max_lons g - g_min_lons g) * deg2m_lon (g_lat_0 g)
                           + (Max (set lats) - Min (set lats)) * deg2m_lat),
                (Max (set lats) - Min (set lats)) * deg2m_lat
                  + 0.2 * ((g_max_lons g - g_min_lons g) * deg2m_lon (g_lat_0 g)
                           + (Max (set lats) - Min (set lats)) * deg2m_lat))
          else (5 * deg2m_lon (g_lat_0 g), 2 * deg2m_lat))"
  using assms by (simp add: basemap_footprint_def py_min_Min py_max_Max Let_def)

lemma cartopy_footprint_nonneg:
  assumes "local_center lons lats = Inr g" "cartopy_footprint lats g = Inr (w0, h0)"
  shows "0 \<le> w0 \<and> 0 \<le> h0"
proof -
  note f = local_center_facts [OF assms(1)]
  have "Min (set lats) \<le> Max (set lats)" using f(2) by (rule Min_le_Max_list)
  then show ?thesis
    using assms(2) f(3) by (auto simp: cartopy_footprint_eq [OF f(2)] split: if_splits)
qed

lemma lat_0_range:
  assumes "lats \<noteq> []" "\<forall>lat \<in> set lats. - 90 \<le> lat \<and> lat \<le> (90::real)"
  shows "- 90 \<le> Max (set lats) / 2 + Min (set lats) / 2"
    and "Max (set lats) / 2 + Min (set lats) / 2 \<le> 90"
proof -
  have "Max (set lats) \<in> set lats" "Min (set lats) \<in> set lats"
    using assms(1) by simp_all
  then have "- 90 \<le> Max (set lats) \<and> Max (set lats) \<le> 90"
    "- 90 \<le> Min (set lats) \<and> Min (set lats) \<le> 90"
    using assms(2) by blast+
  then show "- 90 \<le> Max (set lats) / 2 + Min (set lats) / 2"
    and "Max (set lats) / 2 + Min (set lats) / 2 \<le> 90"
    by simp_all
qed

lemma basemap_footprint_nonneg:
  assumes "local_center lons lats = Inr g" "basemap_footprint lats g = Inr (w0, h0)"
    and "\<forall>lat \<in> set lats. - 90 \<le> lat \<and> lat \<le> 90"
  shows "0 \<le> w0 \<and> 0 \<le> h0"
proof -
  note f = local_center_facts [OF assms(1)]
  have m: "Min (set lats) \<le> Max (set lats)" using f(2) by (rule Min_le_Max_list)
  have c: "0 \<le> deg2m_lon (g_lat_0 g)"
    unfolding f(4) using lat_0_range [OF f(2) assms(3)] by (rule deg2m_lon_nonneg)
  have a: "0 \<le> (g_max_lons g - g_min_lons g) * deg2m_lon (g_lat_0 g)"
    using f(3) c by simp
  have b: "0 \<le> (Max (set lats) - Min (set lats)) * deg2m_lat"
    using m deg2m_lat_pos by simp
  show ?thesis
  proof (cases "length lats > 1")
    case True
    then have "w0 = (g_max_lons g - g_min_lons g) * deg2m_lon (g_lat_0 g)
                  + 0.2 * ((g_max_lons g - g_min_lons g) * deg2m_lon (g_lat_0 g)
                           + (Max (set lats) - Min (set lats)) * deg2m_lat)"
      "h0 = (Max (set lats) - Min (set lats)) * deg2m_lat
                  + 0.2 * ((g_max_lons g - g_min_lons g) * deg2m_lon (g_lat_0 g)
                           + (Max (set lats) - Min (set lats)) * deg2m_lat)"
      using assms(2) by (simp_all add: basemap_footprint_eq [OF f(2)])
    then show ?thesis using a b by simp
  next
    case False
    then have "w0 = 5 * deg2m_lon (g_lat_0 g)" "h0 = 2 * deg2m_lat"
      using assms(2) by (simp_all add: basemap_footprint_eq [OF f(2)])
    then show ?thesis using c deg2m_lat_pos by simp
  qed
qed

lemma cartopy_local_Inr:
  assumes "cartopy_local sz cb lons lats = Inr e"
  obtains g w0 h0 a where "local_center lons lats = Inr g"
    "cartopy_footprint lats g = Inr (w0, h0)" "figure_aspect sz cb = Inr a"
    "aspect_adjust ZeroDivisionError a (w0, h0) = Inr (width e, height e)"
    "lat_0 e = g_lat_0 g" "lon_0 e = g_lon_0 g"
  using assms by (auto simp: cartopy_local_def bind_err_eq_Inr)

lemma basemap_local_Inr:
  assumes "basemap_local sz cb lons lats = Inr e"
  obtains g w0 h0 a where "local_center lons lats = Inr g"
    "basemap_footprint lats g = Inr (w0, h0)" "figure_aspect sz cb = Inr a"
    "aspect_adjust NotANumber a (w0, h0) = Inr (width e, height e)"
    "lat_0 e = g_lat_0 g" "lon_0 e = g_lon_0 g"
  using assms by (auto simp: basemap_local_def bind_err_eq_Inr)

lemma cartopy_local_example:
  "cartopy_local (8, 6) True [10, 30] [50, 60] = Inr \<lparr>lat_0 = 55, lon_0 = 20, width = 26, height = 65 / 4\<rparr>"
  by (simp add: cartopy_local_def local_center_def lon_bounds_def straddles_def
      cartopy_footprint_def figure_aspect_def aspect_adjust_def Let_def)

text \<open>
  C5. For a single point the footprint before the aspect adjustment is 5 wide and 2 high
  in \<open>plot_cartopy\<close>, and \<open>5 * deg2m_lon\<close> wide and \<open>2 * deg2m_lat\<close> high in \<open>plot_basemap\<close>,
  where \<open>deg2m_lon\<close> is taken at the latitude of the point. The height is positive, the
  width in metres is positive strictly between the poles, and on a figure of positive
  size the extent after the aspect adjustment has a positive width and height in both
  renderers (for \<open>plot_basemap\<close> with the latitude between -90 and 90).
\<close>

theorem single_point_footprint:
  "cartopy_footprint [lat] g = Inr (5, 2)
   \<and> basemap_footprint [lat] g = Inr (5 * deg2m_lon (g_lat_0 g), 2 * deg2m_lat)
   \<and> map_sum id g_lat_0 (local_center [lon] [lat]) = Inr lat
   \<and> 0 < 2 * deg2m_lat
   \<and> (- 90 < lat \<and> lat < 90 \<longrightarrow> 0 < 5 * deg2m_lon lat)
   \<and> (0 < fw \<and> 0 < fh \<longrightarrow>
        (\<exists>e. cartopy_local (fw, fh) cb [lon] [lat] = Inr e \<and> 0 < width e \<and> 0 < height e))
   \<and> (0 < fw \<and> 0 < fh \<and> - 90 \<le> lat \<and> lat \<le> 90 \<longrightarrow>
        (\<exists>e. basemap_local (fw, fh) cb [lon] [lat] = Inr e \<and> 0 < width e \<and> 0 < height e))"
proof (intro conjI impI)
  show "cartopy_footprint [lat] g = Inr (5, 2)"
    by (simp add: cartopy_footprint_def)
  show "basemap_footprint [lat] g = Inr (5 * deg2m_lon (g_lat_0 g), 2 * deg2m_lat)"
    by (simp add: basemap_footprint_def)
  show c: "map_sum id g_lat_0 (local_center [lon] [lat]) = Inr lat"
    by (simp add: local_center_eq Let_def split: if_splits)
  show "0 < 2 * deg2m_lat" using deg2m_lat_pos by simp
  show "0 < 5 * deg2m_lon lat" if "- 90 < lat \<and> lat < 90"
    using that deg2m_lon_pos [of lat] by simp
  obtain g' where g': "local_center [lon] [lat] = Inr g'" "g_lat_0 g' = lat"
    using c by (cases "local_center [lon] [lat]") simp_all
  show "\<exists>e. cartopy_local (fw, fh) cb [lon] [lat] = Inr e \<and> 0 < width e \<and> 0 < height e"
    if fig: "0 < fw \<and> 0 < fh"
  proof -
    have a: "0 < (if cb then fw / fh * 1.2 else fw / fh)"
      using fig by simp
    show ?thesis
      using fig a
      by (simp add: cartopy_local_def g' cartopy_footprint_def figure_aspect_def
          aspect_adjust_def Let_def)
  qed
  show "\<exists>e. basemap_local (fw, fh) cb [lon] [lat] = Inr e \<and> 0 < width e \<and> 0 < height e"
    if h: "0 < fw \<and> 0 < fh \<and> - 90 \<le> lat \<and> lat \<le> 90"
  proof -
    define a where "a = (if cb then fw / fh * 1.2 else fw / fh)"
    have a: "0 < a" "figure_aspect (fw, fh) cb = Inr a"
      using h figure_aspect_pos [of fw fh cb] by (simp_all add: a_def)
    define w0 where "w0 = 5 * deg2m_lon lat"
    define h0 where "h0 = 2 * deg2m_lat"
    have nn: "0 \<le> w0" "0 < h0"
      using h deg2m_lon_nonneg [of lat] deg2m_lat_pos by (simp_all add: w0_def h0_def)
    have fp: "basemap_footprint [lat] g' = Inr (w0, h0)"
      by (simp add: basemap_footprint_def g' w0_def h0_def)
    obtain w' h' where adj: "aspect_adjust NotANumber a (w0, h0) = Inr (w', h')"
      using aspect_adjust_eq [OF a(1) nn(2), of NotANumber w0] by (cases "w0 / h0 < a") simp_all
    from aspect_adjust_Inr [OF adj a(1) _ nn(1)] nn(2) have "0 < w'" "0 < h'" by simp_all
    then show ?thesis
      by (simp add: basemap_local_def g' fp a(2) adj)
  qed
qed

text \<open>A single point on the equator, on an 8 by 6 inch figure without colorbar.\<close>

theorem single_point_footprint_witness:
  "(\<exists>e. cartopy_local (8, 6) False [13] [0] = Inr e \<and> 0 < width e \<and> 0 < height e)
   \<and> (\<exists>e. basemap_local (8, 6) False [13] [0] = Inr e \<and> 0 < width e \<and> 0 < height e)
   \<and> 0 < 5 * deg2m_lon 0"
  using single_point_footprint [of 0 _ 13 8 6 False]
  by simp

text \<open>
  C4, as amended. For at least two points that are not all at the same position, that do
  not straddle the antimeridian and whose longitude midpoint is at most 180 (as it is
  when no longitude exceeds 180), on a figure of positive size, \<open>plot_cartopy\<close> computes an
  extent, and the box handed to \<open>set_extent\<close> contains every longitude and every latitude
  of the input.
\<close>

theorem cartopy_extent_contains_points:
  "1 < length lats \<and> lons \<noteq> []
   \<and> \<not> (Min (set lons) < - 150 \<and> Max (set lons) > 150)
   \<and> (Max (set lons) + Min (set lons)) / 2 \<le> 180
   \<and> (Min (set lons) < Max (set lons) \<or> Min (set lats) < Max (set lats))
   \<and> 0 < fw \<and> 0 < fh \<longrightarrow>
   (\<exists>e. cartopy_local (fw, fh) cb lons lats = Inr e
      \<and> (case set_extent_args e of (west, east, south, north) \<Rightarrow>
           (\<forall>lon \<in> set lons. west \<le> lon \<and> lon \<le> east)
           \<and> (\<forall>lat \<in> set lats. south \<le> lat \<and> lat \<le> north)))"
proof
  assume h: "1 < length lats \<and> lons \<noteq> []
   \<and> \<not> (Min (set lons) < - 150 \<and> Max (set lons) > 150)
   \<and> (Max (set lons) + Min (set lons)) / 2 \<le> 180
   \<and> (Min (set lons) < Max (set lons) \<or> Min (set lats) < Max (set lats))
   \<and> 0 < fw \<and> 0 < fh"
  then have lons: "lons \<noteq> []" and lats: "lats \<noteq> []" and len: "1 < length lats"
    and plain: "\<not> (Min (set lons) < - 150 \<and> Max (set lons) > 150)"
    and mid: "(Max (set lons) + Min (set lons)) / 2 \<le> 180"
    and spread: "Min (set lons) < Max (set lons) \<or> Min (set lats) < Max (set lats)"
    and fig: "0 < fw" "0 < fh"
    by auto
  define mxl mnl mxt mnt where "mxl = Max (set lons)" and "mnl = Min (set lons)"
    and "mxt = Max (set lats)" and "mnt = Min (set lats)"
  define g where "g = \<lparr>g_lat_0 = mxt / 2 + mnt / 2, g_lon_0 = (mxl + mnl) / 2,
                         g_max_lons = mxl, g_min_lons = mnl\<rparr>"
  have g: "local_center lons lats = Inr g"
    using local_center_plain [OF lons lats plain] mid
    by (simp add: g_def mxl_def mnl_def mxt_def mnt_def)
  have ord: "mnl \<le> mxl" "mnt \<le> mxt"
    using Min_le_Max_list [OF lons] Min_le_Max_list [OF lats]
    by (simp_all add: mxl_def mnl_def mxt_def mnt_def)
  define w0 where "w0 = (mxl - mnl) + 0.2 * ((mxl - mnl) + (mxt - mnt))"
  define h0 where "h0 = (mxt - mnt) + 0.2 * ((mxl - mnl) + (mxt - mnt))"
  have fp: "cartopy_footprint lats g = Inr (w0, h0)"
    using len by (simp add: cartopy_footprint_eq [OF lats] g_def w0_def h0_def mxt_def mnt_def)
  have spread': "mnl < mxl \<or> mnt < mxt"
    unfolding mxl_def mnl_def mxt_def mnt_def by (rule spread)
  have pos: "0 < h0" "0 \<le> w0" "mxl - mnl \<le> w0" "mxt - mnt \<le> h0"
    using ord spread' unfolding w0_def h0_def by (auto simp: field_simps)
  define a where "a = (if cb then fw / fh * 1.2 else fw / fh)"
  have a: "0 < a" "figure_aspect (fw, fh) cb = Inr a"
    using fig figure_aspect_pos [of fw fh cb] by (simp_all add: a_def)
  obtain w' h' where adj: "aspect_adjust ZeroDivisionError a (w0, h0) = Inr (w', h')"
    using aspect_adjust_eq [OF a(1) pos(1), of ZeroDivisionError w0]
    by (cases "w0 / h0 < a") simp_all
  from aspect_adjust_Inr [OF adj a(1) _ pos(2)] pos(1)
  have grow: "w0 \<le> w'" "h0 \<le> h'" by simp_all
  define e where "e = \<lparr>lat_0 = mxt / 2 + mnt / 2, lon_0 = (mxl + mnl) / 2, width = w', height = h'\<rparr>"
  have gl: "g_lat_0 g = mxt / 2 + mnt / 2" "g_lon_0 g = (mxl + mnl) / 2"
    by (simp_all add: g_def)
  have e: "cartopy_local (fw, fh) cb lons lats = Inr e"
    by (simp add: cartopy_local_def g fp a(2) adj e_def gl)
  have box: "(mxl + mnl) / 2 - w' / 2 \<le> mnl" "mxl \<le> (mxl + mnl) / 2 + w' / 2"
    "mxt / 2 + mnt / 2 - h' / 2 \<le> mnt" "mxt \<le> mxt / 2 + mnt / 2 + h' / 2"
    using grow pos(3,4) by (simp_all add: field_simps)
  have "mnl \<le> lon \<and> lon \<le> mxl" if "lon \<in> set lons" for lon
    using that by (simp add: mxl_def mnl_def)
  moreover have "mnt \<le> lat \<and> lat \<le> mxt" if "lat \<in> set lats" for lat
    using that by (simp add: mxt_def mnt_def)
  ultimately have "(\<forall>lon \<in> set lons. (mxl + mnl) / 2 - w' / 2 \<le> lon \<and> lon \<le> (mxl + mnl) / 2 + w' / 2)
      \<and> (\<forall>lat \<in> set lats. mxt / 2 + mnt / 2 - h' / 2 \<le> lat \<and> lat \<le> mxt / 2 + mnt / 2 + h' / 2)"
    using box by fastforce
  then have inside: "case set_extent_args e of (west, east, south, north) \<Rightarrow>
           (\<forall>lon \<in> set lons. west \<le> lon \<and> lon \<le> east)
           \<and> (\<forall>lat \<in> set lats. south \<le> lat \<and> lat \<le> north)"
    by (simp add: set_extent_args_def e_def)
  show "\<exists>e. cartopy_local (fw, fh) cb lons lats = Inr e
      \<and> (case set_extent_args e of (west, east, south, north) \<Rightarrow>
           (\<forall>lon \<in> set lons. west \<le> lon \<and> lon \<le> east)
           \<and> (\<forall>lat \<in> set lats. south \<le> lat \<and> lat \<le> north))"
    by (rule exI [of _ e], rule conjI, rule e, rule inside)
qed

text \<open>Two points: the box is 7 to 33 degrees east, 46.875 to 63.125 degrees north.\<close>

theorem cartopy_extent_contains_points_witness:
  "cartopy_local (8, 6) True [10, 30] [50, 60]
     = Inr \<lparr>lat_0 = 55, lon_0 = 20, width = 26, height = 65 / 4\<rparr>
   \<and> set_extent_args \<lparr>lat_0 = 55, lon_0 = 20, width = 26, height = 65 / 4\<rparr>
       = (7, 33, 375 / 8, 505 / 8)
   \<and> (\<exists>e. cartopy_local (8, 6) True [10, 30] [50, 60] = Inr e
      \<and> (case set_extent_args e of (west, east, south, north) \<Rightarrow>
           (\<forall>lon \<in> set [10, 30]. west \<le> lon \<and> lon \<le> east)
           \<and> (\<forall>lat \<in> set [50, 60]. south \<le> lat \<and> lat \<le> north)))"
proof -
  have "\<exists>e. cartopy_local (8, 6) True [10, 30] [50, 60] = Inr e
      \<and> (case set_extent_args e of (west, east, south, north) \<Rightarrow>
           (\<forall>lon \<in> set [10, 30]. west \<le> lon \<and> lon \<le> east)
           \<and> (\<forall>lat \<in> set [50, 60]. south \<le> lat \<and> lat \<le> north))"
    using cartopy_extent_contains_points [of "[50, 60]" "[10, 30]" 8 6 True] by simp
  then show ?thesis
    by (simp add: cartopy_local_example set_extent_args_def)
qed

text \<open>
  C4 as stated fails twice. Two points at the same position have a footprint of height
  zero, and \<open>width / height\<close> raises ZeroDivisionError: no extent is computed. The
  longitudes 190 and 200 have the centre -165, and the box from -171.1 to -158.9 does not
  contain 190.
\<close>

theorem cartopy_extent_counterexample:
  "cartopy_local (8, 6) True [10, 10] [20, 20] = Inl ZeroDivisionError
   \<and> map_sum id set_extent_args (cartopy_local (8, 6) True [190, 200] [0, 1])
       = Inr (- 1711 / 10, - 1589 / 10, - 53 / 16, 69 / 16)
   \<and> \<not> ((190::real) \<le> - 1589 / 10)"
  by (simp add: cartopy_local_def local_center_def lon_bounds_def straddles_def
      cartopy_footprint_def figure_aspect_def aspect_adjust_def set_extent_args_def Let_def)

subsection \<open>The colour statements and the colorbar\<close>

lemma date2num_all_Time:
  "date2num_all d2n (map Time ts) = Inr (map (\<lambda>t. Num (d2n t)) ts)"
  by (induction ts) simp_all

lemma min_scan_Time: "min_scan (Time b) (map Time ts) = Inr (Time (fold min ts b))"
proof (induction ts arbitrary: b)
  case Nil
  show ?case by simp
next
  case (Cons c cs)
  show ?case
  proof (cases "c < b")
    case True
    then have "min c b = c" by simp
    with True Cons [of c] show ?thesis by simp
  next
    case False
    then have "min c b = b" by simp
    with False Cons [of b] show ?thesis by simp
  qed
qed

lemma max_scan_Time: "max_scan (Time b) (map Time ts) = Inr (Time (fold max ts b))"
proof (induction ts arbitrary: b)
  case Nil
  show ?case by simp
next
  case (Cons c cs)
  show ?case
  proof (cases "b < c")
    case True
    then have "max c b = c" by simp
    with True Cons [of c] show ?thesis by simp
  next
    case False
    then have "max c b = b" by simp
    with False Cons [of b] show ?thesis by simp
  qed
qed

lemma normalize_color_Time:
  "normalize_color d2n (ColorSeq (map Time (t # ts))) =
     Inr (True, ColorSeq (map (\<lambda>t. Num (d2n t)) (t # ts)))"
  using date2num_all_Time [of d2n "t # ts"]
  by (simp add: normalize_color_def del: date2num_all.simps)



lemma normalize_color_sequence:
  assumes "normalize_color d2n color = Inr (dtp, color')"
  shows "(hasattr_len color' \<and> \<not> isinstance_str color') = (\<exists>cs. color = ColorSeq cs)"
proof (cases color)
  case (ColorSeq cs)
  with assms show ?thesis
    by (auto simp: normalize_color_def bind_err_eq_Inr split: if_splits)
next
  case (ColorStr s)
  with assms show ?thesis
    by (cases s) (auto simp: normalize_color_def)
next
  case (ColorScalar c)
  with assms show ?thesis
    by (simp add: normalize_color_def)
qed

lemma color_statements_Inr:
  assumes "color_statements d2n color = Inr colors"
  shows "min_color_of color = Inr (norm_vmin colors)"
    and "max_color_of color = Inr (norm_vmax colors)"
    and "normalize_color d2n color = Inr (datetimeplot colors, scatter_c colors)"
  using assms by (auto simp: color_statements_def bind_err_eq_Inr)

lemma color_statements_Time:
  "color_statements d2n (ColorSeq (map Time (t # ts))) =
     Inr \<lparr>norm_vmin = Time (Min (set (t # ts))), norm_vmax = Time (Max (set (t # ts))),
          datetimeplot = True, scatter_c = ColorSeq (map (\<lambda>t. Num (d2n t)) (t # ts))\<rparr>"
proof -
  have "min_color_of (ColorSeq (map Time (t # ts))) = Inr (Time (Min (set (t # ts))))"
    by (simp only: Min.set_eq_fold min_scan_Time [symmetric])
       (simp add: min_color_of_def)
  moreover have "max_color_of (ColorSeq (map Time (t # ts))) = Inr (Time (Max (set (t # ts))))"
    by (simp only: Max.set_eq_fold max_scan_Time [symmetric])
       (simp add: max_color_of_def)
  ultimately show ?thesis
    by (simp only: color_statements_def normalize_color_Time bind_err_Inr prod.case)
qed

lemma plot_basemap_Inr:
  assumes "plot_basemap mpl args = Inr fig"
  shows "color_statements (date2num mpl) (arg_color args) = Inr (b_colors fig)"
    and "b_show_colorbar fig =
           show_colorbar_of (arg_colorbar args) (arg_lons args) (scatter_c (b_colors fig))"
  using assms by (auto simp: plot_basemap_def Let_def bind_err_eq_Inr)

lemma plot_cartopy_Inr:
  assumes "plot_cartopy mpl args = Inr fig"
  shows "color_statements (date2num mpl) (arg_color args) = Inr (c_colors fig)"
    and "c_show_colorbar fig =
           show_colorbar_of (arg_colorbar args) (arg_lons args) (scatter_c (c_colors fig))"
  using assms by (auto simp: plot_cartopy_def Let_def bind_err_eq_Inr)

text \<open>Two calls that go through: three numbers on a world map, one timestamp.\<close>

lemma plot_basemap_example:
  "plot_basemap \<lparr>date2num = real_of_int, size_inches = (8, 6)\<rparr>
     \<lparr>arg_lons = [10, 20, 30], arg_lats = [1, 2, 3],
      arg_color = ColorSeq [Num 1, Num 2, Num 3], arg_projection = None,
      arg_resolution = None, arg_colorbar = None, arg_proj_kwargs = None\<rparr>
   = Inr \<lparr>b_colors = \<lparr>norm_vmin = Num 1, norm_vmax = Num 3, datetimeplot = False,
                       scatter_c = ColorSeq [Num 1, Num 2, Num 3]\<rparr>,
          b_show_colorbar = True,
          b_axes = ((0.05, 0.13, 0.90, 0.77), Some (0.05, 0.05, 0.90, 0.05)),
          b_bmap = BCyl ''l''\<rparr>"
  by (simp add: plot_basemap_def color_statements_def min_color_of_def max_color_of_def
      normalize_color_def show_colorbar_of_def axes_rects_def lookup_def
      BASEMAP_RESOLUTIONS_def Let_def)

lemma plot_cartopy_example:
  "plot_cartopy \<lparr>date2num = real_of_int, size_inches = (8, 6)\<rparr>
     \<lparr>arg_lons = [10], arg_lats = [1],
      arg_color = ColorSeq [Time 5], arg_projection = None,
      arg_resolution = None, arg_colorbar = None, arg_proj_kwargs = None\<rparr>
   = Inr \<lparr>c_colors = \<lparr>norm_vmin = Time 5, norm_vmax = Time 5, datetimeplot = True,
                       scatter_c = ColorSeq [Num 5]\<rparr>,
          c_show_colorbar = False,
          c_axes = ((0.05, 0.05, 0.90, 0.85), None),
          c_proj = (''PlateCarree'', Map.empty),
          c_extent = None,
          c_coastlines = ''110m'',
          c_xlocator = [- 180, - 150, - 120, - 90, - 60, - 30, 0, 30, 60, 90, 120, 150, 180],
          c_ylocator = [- 90, - 60, - 30, 0, 30, 60, 90]\<rparr>"
  by (simp add: plot_cartopy_def color_statements_def min_color_of_def max_color_of_def
      normalize_color_def show_colorbar_of_def axes_rects_def lookup_def
      CARTOPY_RESOLUTIONS_def np_arange_def Let_def upt_rec)

text \<open>
  C6. An explicit \<open>colorbar=True\<close> or \<open>False\<close> is the decision. With \<open>colorbar=None\<close> the
  colorbar is shown if and only if \<open>lons\<close> has more than one element and \<open>color\<close> has a
  length and is no string; in a call of either renderer that is: if and only if more than
  one point is plotted and the \<open>color\<close> argument is a sequence and not a string. With the
  colours 1, 2, 3: three points and \<open>None\<close> show it, one point does not, \<open>False\<close> with three
  points does not.
\<close>

theorem colorbar_decision:
  "show_colorbar_of (Some b) lons color = b
   \<and> show_colorbar_of None lons color
       = (length lons > 1 \<and> hasattr_len color \<and> \<not> isinstance_str color)
   \<and> (\<forall>fig. plot_basemap mpl args = Inr fig \<longrightarrow>
         b_show_colorbar fig =
           (case arg_colorbar args of
              Some b \<Rightarrow> b
            | None \<Rightarrow> length (arg_lons args) > 1 \<and> (\<exists>cs. arg_color args = ColorSeq cs)))
   \<and> (\<forall>fig. plot_cartopy mpl args = Inr fig \<longrightarrow>
         c_show_colorbar fig =
           (case arg_colorbar args of
              Some b \<Rightarrow> b
            | None \<Rightarrow> length (arg_lons args) > 1 \<and> (\<exists>cs. arg_color args = ColorSeq cs)))
   \<and> show_colorbar_of None [x1, x2, x3] (ColorSeq [Num 1, Num 2, Num 3]) = True
   \<and> show_colorbar_of None [x1] (ColorSeq [Num 1, Num 2, Num 3]) = False
   \<and> show_colorbar_of (Some False) [x1, x2, x3] (ColorSeq [Num 1, Num 2, Num 3]) = False"
proof (intro conjI allI impI)
  fix fig
  assume r: "plot_basemap mpl args = Inr fig"
  note c = color_statements_Inr(3) [OF plot_basemap_Inr(1) [OF r]]
  show "b_show_colorbar fig =
           (case arg_colorbar args of
              Some b \<Rightarrow> b
            | None \<Rightarrow> length (arg_lons args) > 1 \<and> (\<exists>cs. arg_color args = ColorSeq cs))"
    unfolding plot_basemap_Inr(2) [OF r] show_colorbar_of_def
    using normalize_color_sequence [OF c] by (simp split: option.splits)
next
  fix fig
  assume r: "plot_cartopy mpl args = Inr fig"
  note c = color_statements_Inr(3) [OF plot_cartopy_Inr(1) [OF r]]
  show "c_show_colorbar fig =
           (case arg_colorbar args of
              Some b \<Rightarrow> b
            | None \<Rightarrow> length (arg_lons args) > 1 \<and> (\<exists>cs. arg_color args = ColorSeq cs))"
    unfolding plot_cartopy_Inr(2) [OF r] show_colorbar_of_def
    using normalize_color_sequence [OF c] by (simp split: option.splits)
qed (simp_all add: show_colorbar_of_def)

text \<open>
  \<open>plot_basemap\<close> with three points and three numbers shows the colorbar, \<open>plot_cartopy\<close>
  with one point does not.
\<close>

theorem colorbar_decision_witness:
  "map_sum id b_show_colorbar
     (plot_basemap \<lparr>date2num = real_of_int, size_inches = (8, 6)\<rparr>
        \<lparr>arg_lons = [10, 20, 30], arg_lats = [1, 2, 3],
         arg_color = ColorSeq [Num 1, Num 2, Num 3], arg_projection = None,
         arg_resolution = None, arg_colorbar = None, arg_proj_kwargs = None\<rparr>) = Inr True
   \<and> map_sum id c_show_colorbar
     (plot_cartopy \<lparr>date2num = real_of_int, size_inches = (8, 6)\<rparr>
        \<lparr>arg_lons = [10], arg_lats = [1],
         arg_color = ColorSeq [Time 5], arg_projection = None,
         arg_resolution = None, arg_colorbar = None, arg_proj_kwargs = None\<rparr>) = Inr False"
  using colorbar_decision [of _ _ _ "\<lparr>date2num = real_of_int, size_inches = (8, 6)\<rparr>"
      "\<lparr>arg_lons = [10, 20, 30], arg_lats = [1, 2, 3],
      arg_color = ColorSeq [Num 1, Num 2, Num 3], arg_projection = None,
      arg_resolution = None, arg_colorbar = None, arg_proj_kwargs = None\<rparr>"]
    colorbar_decision [of _ _ _ "\<lparr>date2num = real_of_int, size_inches = (8, 6)\<rparr>"
      "\<lparr>arg_lons = [10], arg_lats = [1],
      arg_color = ColorSeq [Time 5], arg_projection = None,
      arg_resolution = None, arg_colorbar = None, arg_proj_kwargs = None\<rparr>"]
    plot_basemap_example plot_cartopy_example
  by simp


text \<open>
  C10. Whenever the colour statements complete, the bounds given to \<open>Normalize\<close> are
  \<open>min(color)\<close> and \<open>max(color)\<close> of the argument as it was passed. For timestamps the bounds
  are the earliest and the latest timestamp themselves, while the colours of the scatter
  call are the numbers of \<open>date2num\<close>. Both renderers take bounds and colours from these
  statements.
\<close>

theorem norm_bounds_from_raw_colors:
  "(\<forall>colors. color_statements d2n color = Inr colors \<longrightarrow>
      min_color_of color = Inr (norm_vmin colors)
      \<and> max_color_of color = Inr (norm_vmax colors)
      \<and> normalize_color d2n color = Inr (datetimeplot colors, scatter_c colors))
   \<and> color_statements d2n (ColorSeq (map Time (t # ts)))
       = Inr \<lparr>norm_vmin = Time (Min (set (t # ts))), norm_vmax = Time (Max (set (t # ts))),
              datetimeplot = True, scatter_c = ColorSeq (map (\<lambda>t. Num (d2n t)) (t # ts))\<rparr>
   \<and> (\<forall>fig. plot_basemap mpl args = Inr fig \<longrightarrow>
        color_statements (date2num mpl) (arg_color args) = Inr (b_colors fig))
   \<and> (\<forall>fig. plot_cartopy mpl args = Inr fig \<longrightarrow>
        color_statements (date2num mpl) (arg_color args) = Inr (c_colors fig))"
  using color_statements_Inr [of d2n color] color_statements_Time [of d2n t ts]
    plot_basemap_Inr(1) [of mpl args] plot_cartopy_Inr(1) [of mpl args]
  by blast

text \<open>One timestamp: the bounds are the timestamp, the colour is its number.\<close>

theorem norm_bounds_from_raw_colors_witness:
  "map_sum id c_colors
     (plot_cartopy \<lparr>date2num = real_of_int, size_inches = (8, 6)\<rparr>
        \<lparr>arg_lons = [10], arg_lats = [1],
         arg_color = ColorSeq [Time 5], arg_projection = None,
         arg_resolution = None, arg_colorbar = None, arg_proj_kwargs = None\<rparr>)
     = Inr \<lparr>norm_vmin = Time 5, norm_vmax = Time 5, datetimeplot = True,
            scatter_c = ColorSeq [Num 5]\<rparr>
   \<and> color_statements real_of_int (ColorSeq [Time 5])
     = Inr \<lparr>norm_vmin = Time 5, norm_vmax = Time 5, datetimeplot = True,
            scatter_c = ColorSeq [Num 5]\<rparr>"
  using norm_bounds_from_raw_colors [of real_of_int "ColorSeq [Time 5]" 5 "[]"
      "\<lparr>date2num = real_of_int, size_inches = (8, 6)\<rparr>"
      "\<lparr>arg_lons = [10], arg_lats = [1],
         arg_color = ColorSeq [Time 5], arg_projection = None,
         arg_resolution = None, arg_colorbar = None, arg_proj_kwargs = None\<rparr>"]
    plot_cartopy_example
  by simp

subsection \<open>Where errors come from\<close>

lemma bind_err_Inl_cases:
  assumes "bind_err m f = Inl e"
  obtains "m = Inl e" | a where "m = Inr a" "f a = Inl e"
  using assms by (cases m) simp_all

lemma py_min_err: "py_min xs = Inl e \<Longrightarrow> propagated e"
  by (cases xs) auto

lemma py_max_err: "py_max xs = Inl e \<Longrightarrow> propagated e"
  by (cases xs) auto

lemma straddles_err: "straddles lons = Inl e \<Longrightarrow> propagated e"
  unfolding straddles_def
  by (auto elim!: bind_err_Inl_cases dest: py_min_err py_max_err split: if_splits)

lemma lon_bounds_err: "lon_bounds lons = Inl e \<Longrightarrow> propagated e"
  unfolding lon_bounds_def
  by (auto elim!: bind_err_Inl_cases dest: py_min_err py_max_err straddles_err split: if_splits)

lemma local_center_err: "local_center lons lats = Inl e \<Longrightarrow> propagated e"
  unfolding local_center_def
  by (auto elim!: bind_err_Inl_cases dest: py_min_err py_max_err lon_bounds_err simp: Let_def)

lemma cartopy_footprint_err: "cartopy_footprint lats g = Inl e \<Longrightarrow> propagated e"
  unfolding cartopy_footprint_def
  by (auto elim!: bind_err_Inl_cases dest: py_min_err py_max_err simp: Let_def split: if_splits)

lemma basemap_footprint_err: "basemap_footprint lats g = Inl e \<Longrightarrow> propagated e"
  unfolding basemap_footprint_def
  by (auto elim!: bind_err_Inl_cases dest: py_min_err py_max_err simp: Let_def split: if_splits)

lemma figure_aspect_err: "figure_aspect sz cb = Inl e \<Longrightarrow> propagated e"
  by (cases sz) (auto simp: figure_aspect_def Let_def split: if_splits)

lemma aspect_adjust_err: "aspect_adjust z a fp = Inl e \<Longrightarrow> propagated z \<Longrightarrow> propagated e"
  by (cases fp) (auto simp: aspect_adjust_def split: if_splits)

lemma cartopy_local_err: "cartopy_local sz cb lons lats = Inl e \<Longrightarrow> propagated e"
  unfolding cartopy_local_def
  by (auto elim!: bind_err_Inl_cases
      dest: local_center_err cartopy_footprint_err figure_aspect_err aspect_adjust_err)

lemma basemap_local_err: "basemap_local sz cb lons lats = Inl e \<Longrightarrow> propagated e"
  unfolding basemap_local_def
  by (auto elim!: bind_err_Inl_cases
      dest: local_center_err basemap_footprint_err figure_aspect_err aspect_adjust_err)

lemma linspace2_err: "linspace2 v1 v2 N = Inl e \<Longrightarrow> propagated e"
  unfolding linspace2_def
  by (auto elim!: bind_err_Inl_cases simp: Let_def np_log10_def split: if_splits)

lemma tick_count_err: "tick_count p ex = Inl e \<Longrightarrow> propagated e"
  by (auto simp: tick_count_def split: if_splits)

lemma local_gridlines_err: "local_gridlines a b lons ex = Inl e \<Longrightarrow> propagated e"
  unfolding local_gridlines_def
  by (auto elim!: bind_err_Inl_cases simp: Let_def split: if_splits)
     (erule tick_count_err linspace2_err straddles_err)+

lemma lookup_err: "lookup table key = Inl e \<Longrightarrow> propagated e"
  by (auto simp: lookup_def split: option.splits)

lemma elements_err: "elements color = Inl e \<Longrightarrow> propagated e"
  by (cases color) auto

lemma min_scan_err: "min_scan b cs = Inl e \<Longrightarrow> propagated e"
  by (induction cs arbitrary: b) (auto split: option.splits)

lemma max_scan_err: "max_scan b cs = Inl e \<Longrightarrow> propagated e"
  by (induction cs arbitrary: b) (auto split: option.splits)

lemma min_color_of_err: "min_color_of color = Inl e \<Longrightarrow> propagated e"
  unfolding min_color_of_def
  by (auto elim!: bind_err_Inl_cases dest: elements_err min_scan_err split: list.splits)

lemma max_color_of_err: "max_color_of color = Inl e \<Longrightarrow> propagated e"
  unfolding max_color_of_def
  by (auto elim!: bind_err_Inl_cases dest: elements_err max_scan_err split: list.splits)

lemma first_color_err: "first_color color = Inl e \<Longrightarrow> propagated e"
  by (induction color rule: first_color.induct) auto

lemma date2num_of_err: "date2num_of d2n c = Inl e \<Longrightarrow> propagated e"
  by (cases c) auto

lemma date2num_all_err: "date2num_all d2n cs = Inl e \<Longrightarrow> propagated e"
  by (induction cs) (auto elim!: bind_err_Inl_cases dest: date2num_of_err)

lemma normalize_color_err: "normalize_color d2n color = Inl e \<Longrightarrow> propagated e"
  unfolding normalize_color_def
  by (auto elim!: bind_err_Inl_cases
      dest: first_color_err elements_err date2num_all_err split: if_splits)

lemma color_statements_err: "color_statements d2n color = Inl e \<Longrightarrow> propagated e"
  unfolding color_statements_def
  by (auto elim!: bind_err_Inl_cases
      dest: min_color_of_err max_color_of_err normalize_color_err)

lemma plot_basemap_err:
  assumes "plot_basemap mpl args = Inl e"
  shows "propagated e
    \<or> (\<exists>p. arg_projection args = Some p
          \<and> p \<noteq> ProjName ''cyl'' \<and> p \<noteq> ProjName ''ortho'' \<and> p \<noteq> ProjName ''local''
          \<and> e = ValueError (projection_message p))"
  using assms unfolding plot_basemap_def Let_def
  by (auto elim!: bind_err_Inl_cases split: if_splits option.splits
      dest: color_statements_err lookup_err basemap_local_err local_gridlines_err)

lemma plot_cartopy_err:
  assumes "plot_cartopy mpl args = Inl e"
  shows "propagated e
    \<or> (\<exists>p. arg_projection args = Some p
          \<and> p \<noteq> ProjName ''cyl'' \<and> p \<noteq> ProjName ''ortho'' \<and> p \<noteq> ProjName ''local''
          \<and> \<not> isinstance_type p
          \<and> e = ValueError (projection_message p))"
  using assms unfolding plot_cartopy_def Let_def
  by (auto elim!: bind_err_Inl_cases split: if_splits option.splits
      dest: color_statements_err lookup_err cartopy_local_err local_gridlines_err)

lemma plot_basemap_unsupported:
  assumes "color_statements (date2num mpl) (arg_color args) = Inr colors"
    and "arg_projection args = Some p"
    and "p \<noteq> ProjName ''cyl''" "p \<noteq> ProjName ''ortho''" "p \<noteq> ProjName ''local''"
  shows "plot_basemap mpl args = Inl (ValueError (projection_message p))"
  using assms by (simp add: plot_basemap_def Let_def)

lemma plot_cartopy_unsupported:
  assumes "color_statements (date2num mpl) (arg_color args) = Inr colors"
    and "arg_projection args = Some p"
    and "p \<noteq> ProjName ''cyl''" "p \<noteq> ProjName ''ortho''" "p \<noteq> ProjName ''local''"
    and "\<not> isinstance_type p"
  shows "plot_cartopy mpl args = Inl (ValueError (projection_message p))"
  using assms by (simp add: plot_cartopy_def Let_def)

text \<open>
  C7. \<open>plot_map\<close> with a method other than \<open>'basemap'\<close> and \<open>'cartopy'\<close> raises ValueError with
  a message that quotes the method. When the colour statements at the top of a renderer
  complete, a projection other than \<open>'cyl'\<close>, \<open>'ortho'\<close> and \<open>'local'\<close> makes \<open>plot_basemap\<close>
  raise ValueError with a message that quotes the projection, and so does \<open>plot_cartopy\<close>
  unless the projection is a class. These are the only errors the module raises itself:
  any error of \<open>plot_map\<close> is one of the two, or comes out of a builtin or a library.
\<close>

theorem invalid_argument_errors:
  "(method \<noteq> ''basemap'' \<and> method \<noteq> ''cartopy'' \<longrightarrow>
      plot_map mpl method args =
        Inl (ValueError (''The method argument must be either 'basemap' or 'cartopy', not ''
                         @ [CHR 0x27] @ method @ [CHR 0x27] @ ''.'')))
   \<and> (\<forall>colors p.
        color_statements (date2num mpl) (arg_color args) = Inr colors
        \<and> arg_projection args = Some p
        \<and> p \<noteq> ProjName ''cyl'' \<and> p \<noteq> ProjName ''ortho'' \<and> p \<noteq> ProjName ''local'' \<longrightarrow>
        plot_basemap mpl args =
          Inl (ValueError (''Projection '' @ [CHR 0x27] @ str_of p @ [CHR 0x27] @ '' not supported.''))
        \<and> plot_map mpl ''basemap'' args =
          Inl (ValueError (''Projection '' @ [CHR 0x27] @ str_of p @ [CHR 0x27] @ '' not supported.''))
        \<and> (\<not> isinstance_type p \<longrightarrow>
             plot_cartopy mpl args =
               Inl (ValueError (''Projection '' @ [CHR 0x27] @ str_of p @ [CHR 0x27] @ '' not supported.''))
             \<and> plot_map mpl ''cartopy'' args =
               Inl (ValueError (''Projection '' @ [CHR 0x27] @ str_of p @ [CHR 0x27] @ '' not supported.''))))
   \<and> (\<forall>e. plot_map mpl method args = Inl e \<longrightarrow>
        (method \<noteq> ''basemap'' \<and> method \<noteq> ''cartopy'' \<and> e = ValueError (method_message method))
        \<or> (\<exists>p. arg_projection args = Some p
               \<and> p \<noteq> ProjName ''cyl'' \<and> p \<noteq> ProjName ''ortho'' \<and> p \<noteq> ProjName ''local''
               \<and> (method = ''cartopy'' \<longrightarrow> \<not> isinstance_type p)
               \<and> e = ValueError (projection_message p))
        \<or> propagated e)"
proof (intro conjI allI impI)
  assume "method \<noteq> ''basemap'' \<and> method \<noteq> ''cartopy''"
  then show "plot_map mpl method args =
        Inl (ValueError (''The method argument must be either 'basemap' or 'cartopy', not ''
                         @ [CHR 0x27] @ method @ [CHR 0x27] @ ''.''))"
    by (simp add: plot_map_def method_message_def quoted_def)
next
  fix colors p
  assume h: "color_statements (date2num mpl) (arg_color args) = Inr colors
        \<and> arg_projection args = Some p
        \<and> p \<noteq> ProjName ''cyl'' \<and> p \<noteq> ProjName ''ortho'' \<and> p \<noteq> ProjName ''local''"
  then have b: "plot_basemap mpl args = Inl (ValueError (projection_message p))"
    using plot_basemap_unsupported by blast
  then show "plot_basemap mpl args =
          Inl (ValueError (''Projection '' @ [CHR 0x27] @ str_of p @ [CHR 0x27] @ '' not supported.''))"
    by (simp add: projection_message_def quoted_def)
  show "plot_map mpl ''basemap'' args =
          Inl (ValueError (''Projection '' @ [CHR 0x27] @ str_of p @ [CHR 0x27] @ '' not supported.''))"
    using b by (simp add: plot_map_def projection_message_def quoted_def)
  assume "\<not> isinstance_type p"
  with h have c: "plot_cartopy mpl args = Inl (ValueError (projection_message p))"
    using plot_cartopy_unsupported by blast
  then show "plot_cartopy mpl args =
          Inl (ValueError (''Projection '' @ [CHR 0x27] @ str_of p @ [CHR 0x27] @ '' not supported.''))"
    by (simp add: projection_message_def quoted_def)
  show "plot_map mpl ''cartopy'' args =
          Inl (ValueError (''Projection '' @ [CHR 0x27] @ str_of p @ [CHR 0x27] @ '' not supported.''))"
    using c by (simp add: plot_map_def projection_message_def quoted_def)
next
  fix e
  assume r: "plot_map mpl method args = Inl e"
  consider "method = ''basemap''" | "method \<noteq> ''basemap''" "method = ''cartopy''"
    | "method \<noteq> ''basemap''" "method \<noteq> ''cartopy''"
    by blast
  then show "(method \<noteq> ''basemap'' \<and> method \<noteq> ''cartopy'' \<and> e = ValueError (method_message method))
        \<or> (\<exists>p. arg_projection args = Some p
               \<and> p \<noteq> ProjName ''cyl'' \<and> p \<noteq> ProjName ''ortho'' \<and> p \<noteq> ProjName ''local''
               \<and> (method = ''cartopy'' \<longrightarrow> \<not> isinstance_type p)
               \<and> e = ValueError (projection_message p))
        \<or> propagated e"
  proof cases
    case 1
    with r have "plot_basemap mpl args = Inl e"
      by (cases "plot_basemap mpl args") (simp_all add: plot_map_def)
    from plot_basemap_err [OF this] 1 show ?thesis by auto
  next
    case 2
    with r have "plot_cartopy mpl args = Inl e"
      by (cases "plot_cartopy mpl args") (simp_all add: plot_map_def)
    from plot_cartopy_err [OF this] 2 show ?thesis by auto
  next
    case 3
    with r show ?thesis by (simp add: plot_map_def)
  qed
qed

text \<open>The method \<open>'unknown'\<close> and the projection \<open>'merc'\<close>.\<close>

theorem invalid_argument_errors_witness:
  "plot_map \<lparr>date2num = real_of_int, size_inches = (8, 6)\<rparr> ''unknown''
     \<lparr>arg_lons = [10], arg_lats = [1], arg_color = ColorSeq [Num 1],
      arg_projection = Some (ProjName ''merc''), arg_resolution = None,
      arg_colorbar = None, arg_proj_kwargs = None\<rparr>
     = Inl (ValueError ''The method argument must be either 'basemap' or 'cartopy', not 'unknown'.'')
   \<and> plot_map \<lparr>date2num = real_of_int, size_inches = (8, 6)\<rparr> ''basemap''
     \<lparr>arg_lons = [10], arg_lats = [1], arg_color = ColorSeq [Num 1],
      arg_projection = Some (ProjName ''merc''), arg_resolution = None,
      arg_colorbar = None, arg_proj_kwargs = None\<rparr>
     = Inl (ValueError ''Projection 'merc' not supported.'')
   \<and> plot_map \<lparr>date2num = real_of_int, size_inches = (8, 6)\<rparr> ''cartopy''
     \<lparr>arg_lons = [10], arg_lats = [1], arg_color = ColorSeq [Num 1],
      arg_projection = Some (ProjName ''merc''), arg_resolution = None,
      arg_colorbar = None, arg_proj_kwargs = None\<rparr>
     = Inl (ValueError ''Projection 'merc' not supported.'')"
proof -
  let ?mpl = "\<lparr>date2num = real_of_int, size_inches = (8, 6)\<rparr>"
  let ?args = "\<lparr>arg_lons = [10], arg_lats = [1], arg_color = ColorSeq [Num 1],
      arg_projection = Some (ProjName ''merc''), arg_resolution = None,
      arg_colorbar = None, arg_proj_kwargs = None\<rparr> :: int call_args"
  have c: "color_statements (date2num ?mpl) (arg_color ?args)
     = Inr \<lparr>norm_vmin = Num 1, norm_vmax = Num 1, datetimeplot = False,
            scatter_c = ColorSeq [Num 1]\<rparr>"
    by (simp add: color_statements_def min_color_of_def max_color_of_def normalize_color_def)
  from invalid_argument_errors [of "''unknown''" ?mpl ?args]
    invalid_argument_errors [of "''basemap''" ?mpl ?args] c
  show ?thesis by simp
qed

subsection \<open>Rounding to a double\<close>




lemma py_round_of_int: "py_round (of_int n) = n"
  by (simp add: py_round_def Let_def)













subsection \<open>The aspect adjustment in double precision\<close>








































subsection \<open>Timestamps as day numbers\<close>

















end
